theory Spec2Isabelle
  imports Complex_Main
begin

section \<open>JavaScript values used by the server\<close>

text \<open>
  The server (\<^verbatim>\<open>src/server.js\<close>) computes with JavaScript numbers and strings.
  A number is an IEEE 754 double: \<open>NaN\<close>, one of the two infinities, or a finite value,
  which is modelled by the rational it denotes. The sign of zero is outside the model.
  The functions \<open>js_minus\<close>, \<open>js_times\<close> and \<open>js_divide\<close> give the exact difference,
  product and quotient of two numbers; the operators \<^verbatim>\<open>-\<close>, \<^verbatim>\<open>*\<close> and \<^verbatim>\<open>/\<close> of the
  language return the double nearest to it, which \<open>rounded\<close> (below) computes.
\<close>

datatype number = NaN | Fin rat | PosInfinity | NegInfinity

text \<open>\<^verbatim>\<open>ToBoolean\<close> of a number: \<open>NaN\<close> and zero are falsy.\<close>

fun truthy_number :: "number \<Rightarrow> bool" where
  "truthy_number NaN = False"
| "truthy_number (Fin q) = (q \<noteq> 0)"
| "truthy_number PosInfinity = True"
| "truthy_number NegInfinity = True"

text \<open>The exact difference of the operator \<^verbatim>\<open>-\<close>.\<close>

fun js_minus :: "number \<Rightarrow> number \<Rightarrow> number" where
  "js_minus NaN y = NaN"
| "js_minus x NaN = NaN"
| "js_minus (Fin a) (Fin b) = Fin (a - b)"
| "js_minus (Fin a) PosInfinity = NegInfinity"
| "js_minus (Fin a) NegInfinity = PosInfinity"
| "js_minus PosInfinity (Fin b) = PosInfinity"
| "js_minus NegInfinity (Fin b) = NegInfinity"
| "js_minus PosInfinity PosInfinity = NaN"
| "js_minus PosInfinity NegInfinity = PosInfinity"
| "js_minus NegInfinity PosInfinity = NegInfinity"
| "js_minus NegInfinity NegInfinity = NaN"

text \<open>The exact product of the operator \<^verbatim>\<open>*\<close>.\<close>

fun js_times :: "number \<Rightarrow> number \<Rightarrow> number" where
  "js_times NaN y = NaN"
| "js_times x NaN = NaN"
| "js_times (Fin a) (Fin b) = Fin (a * b)"
| "js_times (Fin a) PosInfinity = (if a = 0 then NaN else if 0 < a then PosInfinity else NegInfinity)"
| "js_times (Fin a) NegInfinity = (if a = 0 then NaN else if 0 < a then NegInfinity else PosInfinity)"
| "js_times PosInfinity (Fin b) = (if b = 0 then NaN else if 0 < b then PosInfinity else NegInfinity)"
| "js_times NegInfinity (Fin b) = (if b = 0 then NaN else if 0 < b then NegInfinity else PosInfinity)"
| "js_times PosInfinity PosInfinity = PosInfinity"
| "js_times PosInfinity NegInfinity = NegInfinity"
| "js_times NegInfinity PosInfinity = NegInfinity"
| "js_times NegInfinity NegInfinity = PosInfinity"

text \<open>The exact quotient of the operator \<^verbatim>\<open>/\<close>; a zero divisor is the positive zero.\<close>

fun js_divide :: "number \<Rightarrow> number \<Rightarrow> number" where
  "js_divide NaN y = NaN"
| "js_divide x NaN = NaN"
| "js_divide (Fin a) (Fin b) =
     (if b = 0 then (if a = 0 then NaN else if 0 < a then PosInfinity else NegInfinity)
      else Fin (a / b))"
| "js_divide (Fin a) PosInfinity = Fin 0"
| "js_divide (Fin a) NegInfinity = Fin 0"
| "js_divide PosInfinity (Fin b) = (if 0 \<le> b then PosInfinity else NegInfinity)"
| "js_divide NegInfinity (Fin b) = (if 0 \<le> b then NegInfinity else PosInfinity)"
| "js_divide PosInfinity PosInfinity = NaN"
| "js_divide PosInfinity NegInfinity = NaN"
| "js_divide NegInfinity PosInfinity = NaN"
| "js_divide NegInfinity NegInfinity = NaN"

text \<open>The comparison \<^verbatim>\<open>x > y\<close>: false as soon as one side is \<open>NaN\<close>.\<close>

fun js_greater :: "number \<Rightarrow> number \<Rightarrow> bool" where
  "js_greater NaN y = False"
| "js_greater x NaN = False"
| "js_greater (Fin a) (Fin b) = (b < a)"
| "js_greater (Fin a) PosInfinity = False"
| "js_greater (Fin a) NegInfinity = True"
| "js_greater PosInfinity y = (y \<noteq> PosInfinity)"
| "js_greater NegInfinity y = False"

fun Math_floor :: "number \<Rightarrow> number" where
  "Math_floor (Fin q) = Fin (of_int \<lfloor>q\<rfloor>)"
| "Math_floor x = x"

fun Math_max :: "number \<Rightarrow> number \<Rightarrow> number" where
  "Math_max x y = (if x = NaN \<or> y = NaN then NaN else if js_greater y x then y else x)"

fun Math_min :: "number \<Rightarrow> number \<Rightarrow> number" where
  "Math_min x y = (if x = NaN \<or> y = NaN then NaN else if js_greater x y then y else x)"

subsection \<open>Rounding to a double\<close>

text \<open>
  A finite double other than zero is \<open>m * 2^(e - 52)\<close> with an integer \<open>m\<close> of at most 53
  bits and an exponent \<open>e\<close> from \<open>-1022\<close> to \<open>1023\<close>. The exponent of a positive rational
  \<open>a\<close> is the \<open>e\<close> with \<open>2^e \<le> a < 2^(e + 1)\<close>, found by halving or doubling \<open>a\<close>; it
  stops at \<open>-1022\<close>, where the subnormal numbers begin, and at \<open>1024\<close>, where no double is
  left.
\<close>

fun halvings :: "nat \<Rightarrow> rat \<Rightarrow> nat" where
  "halvings 0 a = 0"
| "halvings (Suc k) a = (if a < 2 then 0 else Suc (halvings k (a / 2)))"

fun doublings :: "nat \<Rightarrow> rat \<Rightarrow> nat" where
  "doublings 0 a = 0"
| "doublings (Suc k) a = (if 1 \<le> a then 0 else Suc (doublings k (a * 2)))"

definition binade :: "rat \<Rightarrow> int" where
  "binade a = (if 1 \<le> a then int (halvings 1024 a) else - int (doublings 1022 a))"

definition pow2 :: "int \<Rightarrow> rat" where
  "pow2 e = (if 0 \<le> e then 2 ^ nat e else 1 / 2 ^ nat (- e))"

text \<open>
  The integer nearest to \<open>m\<close>, the even one of two (the rounding mode of JavaScript);
  \<open>n\<close> is the floor of \<open>m\<close>.
\<close>

definition ties_to_even :: "rat \<Rightarrow> int \<Rightarrow> int" where
  "ties_to_even m n =
     (if m - of_int n < 1 / 2 then n
      else if 1 / 2 < m - of_int n then n + 1
      else if even n then n else n + 1)"

definition nearest_even :: "rat \<Rightarrow> int" where
  "nearest_even m = ties_to_even m \<lfloor>m\<rfloor>"

text \<open>The multiple of the unit \<open>u\<close> nearest to \<open>a\<close>.\<close>

definition round_to_unit :: "rat \<Rightarrow> rat \<Rightarrow> rat" where
  "round_to_unit a u = of_int (nearest_even (a / u)) * u"

text \<open>A rounded absolute value of \<open>2^1024\<close> or more is an infinity.\<close>

definition finite_or_infinite :: "bool \<Rightarrow> rat \<Rightarrow> number" where
  "finite_or_infinite negative r =
     (if 2 ^ 1024 \<le> r then (if negative then NegInfinity else PosInfinity)
      else Fin (if negative then - r else r))"

text \<open>The double nearest to a rational: its absolute value is rounded in its binade.\<close>

definition to_double :: "rat \<Rightarrow> number" where
  "to_double q =
     (if q = 0 then Fin 0
      else finite_or_infinite (q < 0) (round_to_unit \<bar>q\<bar> (pow2 (binade \<bar>q\<bar> - 52))))"

fun rounded :: "number \<Rightarrow> number" where
  "rounded (Fin q) = to_double q"
| "rounded x = x"

subsection \<open>Strings\<close>

text \<open>
  A string is a list of bytes. \<^verbatim>\<open>toLowerCase\<close> is modelled on the ASCII letters; the
  other bytes stay as they are. JavaScript maps a character outside ASCII to a character
  outside ASCII (for the letters of the extensions compared below), so the comparisons
  of the program with ASCII literals see no difference.
\<close>

definition lower_char :: "char \<Rightarrow> char" where
  "lower_char c =
     (case map_of (zip ''ABCDEFGHIJKLMNOPQRSTUVWXYZ'' ''abcdefghijklmnopqrstuvwxyz'') c of
        Some l \<Rightarrow> l
      | None \<Rightarrow> c)"

definition toLowerCase :: "string \<Rightarrow> string" where
  "toLowerCase s = map lower_char s"

text \<open>
  \<^verbatim>\<open>String(n)\<close> of a non-negative integer below \<open>10^21\<close>: its decimal digits, without
  leading zeros. It is what \<^verbatim>\<open>Date.now() + '-' + ...\<close> and the template string
  \<^verbatim>\<open>`trimmed-${Date.now()}...`\<close> insert.
\<close>

definition digit_char :: "nat \<Rightarrow> char" where
  "digit_char d =
     (if d = 0 then CHR ''0'' else if d = 1 then CHR ''1'' else if d = 2 then CHR ''2''
      else if d = 3 then CHR ''3'' else if d = 4 then CHR ''4'' else if d = 5 then CHR ''5''
      else if d = 6 then CHR ''6'' else if d = 7 then CHR ''7'' else if d = 8 then CHR ''8''
      else CHR ''9'')"

function decimal :: "nat \<Rightarrow> string" where
  "decimal n = (if n < 10 then [digit_char n] else decimal (n div 10) @ [digit_char (n mod 10)])"
  by pat_completeness auto
termination
  by (relation "measure id") auto

declare decimal.simps [simp del]

subsection \<open>Values of the fields of an ffprobe report\<close>

text \<open>
  A field of the object that \<^verbatim>\<open>ffmpeg.ffprobe\<close> hands to its callback is absent
  (\<^verbatim>\<open>undefined\<close>), \<^verbatim>\<open>null\<close>, a number or a string.
\<close>

datatype jsval = Undefined | Null | Num number | Str string

fun truthy :: "jsval \<Rightarrow> bool" where
  "truthy Undefined = False"
| "truthy Null = False"
| "truthy (Num x) = truthy_number x"
| "truthy (Str s) = (s \<noteq> [])"

text \<open>
  \<^verbatim>\<open>parseInt(v)\<close> with no radix. On a string: leading white space is skipped, a sign is
  read, a prefix \<^verbatim>\<open>0x\<close> selects radix 16, and the longest run of digits is the value,
  as a double; no digit gives \<open>NaN\<close>. (White space is the ASCII white space.)
\<close>

definition is_white :: "char \<Rightarrow> bool" where
  "is_white c = (c \<in> set [CHR '' '', CHR 0x09, CHR 0x0A, CHR 0x0B, CHR 0x0C, CHR 0x0D])"

definition digit_value :: "char \<Rightarrow> nat" where
  "digit_value c =
     (let n = (of_char c :: nat) in
      if 48 \<le> n \<and> n \<le> 57 then n - 48
      else if 97 \<le> n \<and> n \<le> 122 then n - 87
      else if 65 \<le> n \<and> n \<le> 90 then n - 55
      else 36)"

definition is_digit :: "nat \<Rightarrow> char \<Rightarrow> bool" where
  "is_digit radix c = (digit_value c < radix)"

definition digits_value :: "nat \<Rightarrow> string \<Rightarrow> nat" where
  "digits_value radix ds = foldl (\<lambda>acc c. acc * radix + digit_value c) 0 ds"

fun strip_sign :: "string \<Rightarrow> bool \<times> string" where
  "strip_sign (c # cs) =
     (if c = CHR ''-'' then (True, cs) else if c = CHR ''+'' then (False, cs) else (False, c # cs))"
| "strip_sign [] = (False, [])"

fun strip_hex_prefix :: "string \<Rightarrow> nat \<times> string" where
  "strip_hex_prefix (c # d # cs) =
     (if c = CHR ''0'' \<and> (d = CHR ''x'' \<or> d = CHR ''X'') then (16, cs) else (10, c # d # cs))"
| "strip_hex_prefix cs = (10, cs)"

definition signed :: "bool \<Rightarrow> rat \<Rightarrow> rat" where
  "signed neg q = (if neg then - q else q)"

definition parseInt_string :: "string \<Rightarrow> number" where
  "parseInt_string s =
     (let (neg, u) = strip_sign (dropWhile is_white s);
          (radix, v) = strip_hex_prefix u;
          ds = takeWhile (is_digit radix) v
      in if ds = [] then NaN else to_double (signed neg (of_nat (digits_value radix ds))))"

text \<open>
  On a number, \<^verbatim>\<open>parseInt\<close> reads the number's string: the integer part, rounded
  towards zero. (This is exact where JavaScript prints the number in plain decimal
  notation: zero, and absolute values from \<open>10^-6\<close> up to \<open>10^21\<close>.)
\<close>

definition toward_zero :: "rat \<Rightarrow> rat" where
  "toward_zero q = (if q < 0 then - of_int \<lfloor>- q\<rfloor> else of_int \<lfloor>q\<rfloor>)"

fun parseInt :: "jsval \<Rightarrow> number" where
  "parseInt (Str s) = parseInt_string s"
| "parseInt (Num (Fin q)) = Fin (toward_zero q)"
| "parseInt v = NaN"

text \<open>
  \<^verbatim>\<open>parseFloat(v)\<close>. On a string: white space, a sign, then \<^verbatim>\<open>Infinity\<close> or the longest
  decimal literal (digits, an optional fraction, an optional exponent with at least one
  digit), whose value is rounded to a double; \<open>NaN\<close> when there is no digit before the
  exponent.
\<close>

definition exponent_part :: "string \<Rightarrow> int" where
  "exponent_part s =
     (case s of
        c # cs \<Rightarrow>
          (if c = CHR ''e'' \<or> c = CHR ''E'' then
             (let (neg, u) = strip_sign cs; ds = takeWhile (is_digit 10) u
              in if ds = [] then 0
                 else if neg then - int (digits_value 10 ds) else int (digits_value 10 ds))
           else 0)
      | [] \<Rightarrow> 0)"

definition scale10 :: "rat \<Rightarrow> int \<Rightarrow> rat" where
  "scale10 q e = (if 0 \<le> e then q * 10 ^ nat e else q / 10 ^ nat (- e))"

definition parseFloat_string :: "string \<Rightarrow> number" where
  "parseFloat_string s =
     (let (neg, u) = strip_sign (dropWhile is_white s) in
      if take 8 u = ''Infinity'' then (if neg then NegInfinity else PosInfinity)
      else
        (let ip = takeWhile (is_digit 10) u;
             r = dropWhile (is_digit 10) u;
             fp = (case r of c # cs \<Rightarrow> if c = CHR ''.'' then takeWhile (is_digit 10) cs else [] | [] \<Rightarrow> []);
             r' = (case r of c # cs \<Rightarrow> if c = CHR ''.'' then dropWhile (is_digit 10) cs else r | [] \<Rightarrow> [])
         in if ip = [] \<and> fp = [] then NaN
            else to_double (signed neg
                   (scale10 (of_nat (digits_value 10 ip)
                             + of_nat (digits_value 10 fp) / 10 ^ length fp)
                            (exponent_part r')))))"

fun parseFloat :: "jsval \<Rightarrow> number" where
  "parseFloat (Str s) = parseFloat_string s"
| "parseFloat (Num x) = x"
| "parseFloat v = NaN"

subsection \<open>Paths\<close>

text \<open>
  \<^verbatim>\<open>path.extname\<close> of Node.js on POSIX paths: trailing slashes are dropped, the last
  component is taken, and the extension runs from its last dot to its end. A component
  with no dot, one whose only dot is its first character, and \<^verbatim>\<open>..\<close> have the empty
  extension.
\<close>

definition last_component :: "string \<Rightarrow> string" where
  "last_component p =
     rev (takeWhile (\<lambda>c. c \<noteq> CHR ''/'') (dropWhile (\<lambda>c. c = CHR ''/'') (rev p)))"

definition extname :: "string \<Rightarrow> string" where
  "extname p =
     (let b = last_component p;
          e = rev (takeWhile (\<lambda>c. c \<noteq> CHR ''.'') (rev b))
      in if CHR ''.'' \<notin> set b then []
         else if length e + 1 = length b then []
         else if b = ''..'' then []
         else CHR ''.'' # e)"

text \<open>
  \<^verbatim>\<open>path.join(dir, name)\<close> for a normalised directory and a file name without slashes.
\<close>

definition path_join :: "string \<Rightarrow> string \<Rightarrow> string" where
  "path_join dir name = dir @ ''/'' @ name"

section \<open>The metadata prober: \<^verbatim>\<open>getAudioMetadata\<close>\<close>

text \<open>
  The report of \<^verbatim>\<open>ffprobe\<close>: a list of streams and, possibly, a format section.
\<close>

record ffstream =
  codec_type :: jsval
  bit_rate :: jsval
  codec_name :: jsval
  sample_rate :: jsval
  stream_channels :: jsval

record ffformat =
  format_bit_rate :: jsval
  format_size :: jsval
  format_duration :: jsval

record ffprobe_data =
  streams :: "ffstream list"
  format :: "ffformat option"

datatype error = Error string

fun message :: "error \<Rightarrow> string" where
  "message (Error m) = m"

text \<open>
  The object the prober resolves with. The variable \<^verbatim>\<open>bitrate\<close> holds \<^verbatim>\<open>null\<close>
  (\<open>None\<close>) or a number.
\<close>

record AudioMetadata =
  bitrate :: "number option"
  codec :: jsval
  sampleRate :: jsval
  channels :: jsval

text \<open>\<^verbatim>\<open>ToBoolean\<close> of a variable that holds \<^verbatim>\<open>null\<close> or a number.\<close>

fun truthy_opt :: "number option \<Rightarrow> bool" where
  "truthy_opt None = False"
| "truthy_opt (Some x) = truthy_number x"

text \<open>Lines 67 to 80 of \<^verbatim>\<open>server.js\<close>: the three tiers, in the order of the source; \<open>br\<close> is
  the value of the variable \<^verbatim>\<open>bitrate\<close> so far. On line 78 the product and the quotient are
  doubles: each is rounded before it is used.\<close>

definition stream_tier :: "ffstream \<Rightarrow> number option" where
  "stream_tier audioStream =
     (if truthy (bit_rate audioStream) then Some (parseInt (bit_rate audioStream)) else None)"

definition format_tier :: "ffformat option \<Rightarrow> number option \<Rightarrow> number option" where
  "format_tier fmt br =
     (case fmt of
        Some f \<Rightarrow>
          if \<not> truthy_opt br \<and> truthy (format_bit_rate f)
          then Some (parseInt (format_bit_rate f)) else br
      | None \<Rightarrow> br)"

definition computed_tier :: "ffformat option \<Rightarrow> number option \<Rightarrow> number option" where
  "computed_tier fmt br =
     (case fmt of
        Some f \<Rightarrow>
          if \<not> truthy_opt br \<and> truthy (format_size f) \<and> truthy (format_duration f)
          then
            (let fileSizeBytes = parseInt (format_size f);
                 durationSeconds = parseFloat (format_duration f)
             in if js_greater durationSeconds (Fin 0)
                then Some (Math_floor
                             (rounded (js_divide (rounded (js_times fileSizeBytes (Fin 8)))
                                                 durationSeconds)))
                else br)
          else br
      | None \<Rightarrow> br)"

definition resolve_bitrate :: "ffstream \<Rightarrow> ffformat option \<Rightarrow> number option" where
  "resolve_bitrate audioStream fmt =
     computed_tier fmt (format_tier fmt (stream_tier audioStream))"

text \<open>
  The callback of \<^verbatim>\<open>ffmpeg.ffprobe\<close> receives an error or a report; the promise is
  rejected (\<open>Inl\<close>) or resolved (\<open>Inr\<close>).
\<close>

definition getAudioMetadata :: "error + ffprobe_data \<Rightarrow> error + AudioMetadata" where
  "getAudioMetadata probed =
     (case probed of
        Inl err \<Rightarrow> Inl err
      | Inr metadata \<Rightarrow>
          (case find (\<lambda>stream. codec_type stream = Str ''audio'') (streams metadata) of
             None \<Rightarrow> Inl (Error ''No audio stream found'')
           | Some audioStream \<Rightarrow>
               Inr \<lparr>bitrate = resolve_bitrate audioStream (format metadata),
                    codec = codec_name audioStream,
                    sampleRate = sample_rate audioStream,
                    channels = stream_channels audioStream\<rparr>))"

section \<open>The silence-removal pipeline: \<^verbatim>\<open>removeSilence\<close>\<close>

text \<open>
  The command that \<^verbatim>\<open>removeSilence\<close> builds with fluent-ffmpeg and runs with
  \<^verbatim>\<open>save\<close>: the input, the audio filters, the codec of \<^verbatim>\<open>audioCodec\<close>, the bitrate
  of \<^verbatim>\<open>audioBitrate\<close> in kbps (absent when the method is not called), the options of
  \<^verbatim>\<open>addOption\<close> and the output path.
\<close>

record command =
  cmd_input :: string
  audioFilters :: "string list"
  audioCodec :: "string option"
  audioBitrate :: "number option"
  outputOptions :: "string list"
  cmd_output :: string

definition ffmpeg_command :: "string \<Rightarrow> string \<Rightarrow> command" where
  "ffmpeg_command inputPath outputPath =
     \<lparr>cmd_input = inputPath,
      audioFilters = [''silenceremove=stop_periods=-1:stop_duration=0.5:stop_threshold=-30dB''],
      audioCodec = None, audioBitrate = None, outputOptions = [],
      cmd_output = outputPath\<rparr>"

text \<open>
  Lines 141 to 147: the target bitrate, \<^verbatim>\<open>null\<close> or a number of kbps. The quotient by
  1000 is only used under \<^verbatim>\<open>Math.floor\<close> and is taken exactly here: the bitrate of a
  metadata object is an integer (from \<^verbatim>\<open>parseInt\<close> or \<^verbatim>\<open>Math.floor\<close>), and for an integer
  below \<open>2^52\<close> the rounded quotient has the floor of the exact one (lemma
  \<open>kbps_floor_exact\<close>).
\<close>

definition targetBitrate :: "AudioMetadata option \<Rightarrow> number option" where
  "targetBitrate metadata =
     (case metadata of
        None \<Rightarrow> None
      | Some md \<Rightarrow>
          (case bitrate md of
             None \<Rightarrow> None
           | Some b \<Rightarrow>
               if truthy_number b
               then (let originalKbps = Math_floor (js_divide b (Fin 1000))
                     in Some (Math_max (Fin 32) originalKbps))
               else None))"

text \<open>Lines 135 to 195 and the call of \<^verbatim>\<open>save\<close>: the command that is run.\<close>

definition removeSilence :: "string \<Rightarrow> string \<Rightarrow> AudioMetadata option \<Rightarrow> command" where
  "removeSilence inputPath outputPath metadata =
     (let outputExt = toLowerCase (extname outputPath);
          command = ffmpeg_command inputPath outputPath;
          target = targetBitrate metadata
      in if outputExt = ''.mp3'' \<or> outputExt = ''.mpeg'' then
           (if truthy_opt target
            then command\<lparr>audioCodec := Some ''libmp3lame'', audioBitrate := target\<rparr>
            else command\<lparr>audioCodec := Some ''libmp3lame'', audioBitrate := Some (Fin 128)\<rparr>)
         else if outputExt = ''.m4a'' \<or> outputExt = ''.mp4'' then
           (if truthy_opt target
            then command\<lparr>audioCodec := Some ''aac'', audioBitrate := target,
                         outputOptions := [''-profile:a'', ''aac_low'']\<rparr>
            else command\<lparr>audioCodec := Some ''aac'', audioBitrate := Some (Fin 96),
                         outputOptions := [''-profile:a'', ''aac_low'']\<rparr>)
         else if outputExt = ''.ogg'' then
           (case target of
              Some t \<Rightarrow>
                if truthy_number t
                then command\<lparr>audioCodec := Some ''libvorbis'',
                             audioBitrate := Some (Math_min t (Fin 256))\<rparr>
                else command\<lparr>audioCodec := Some ''libvorbis''\<rparr>
            | None \<Rightarrow> command\<lparr>audioCodec := Some ''libvorbis''\<rparr>)
         else if outputExt = ''.wav'' then
           command\<lparr>audioCodec := Some ''pcm_s16le''\<rparr>
         else
           (if truthy_opt target
            then command\<lparr>audioCodec := Some ''aac'', audioBitrate := target\<rparr>
            else command\<lparr>audioCodec := Some ''aac'', audioBitrate := Some (Fin 96)\<rparr>))"

text \<open>
  The legacy variant (\<^verbatim>\<open>src/unnamed/part_000\<close>, lines 180 to 222): no metadata
  parameter, fixed bitrates.
\<close>

definition removeSilence_legacy :: "string \<Rightarrow> string \<Rightarrow> command" where
  "removeSilence_legacy inputPath outputPath =
     (let outputExt = toLowerCase (extname outputPath);
          command = ffmpeg_command inputPath outputPath
      in if outputExt = ''.mp3'' \<or> outputExt = ''.mpeg'' then
           command\<lparr>audioCodec := Some ''libmp3lame'', audioBitrate := Some (Fin 192)\<rparr>
         else if outputExt = ''.m4a'' \<or> outputExt = ''.mp4'' then
           command\<lparr>audioCodec := Some ''aac'', audioBitrate := Some (Fin 192)\<rparr>
         else if outputExt = ''.ogg'' then
           command\<lparr>audioCodec := Some ''libvorbis''\<rparr>
         else if outputExt = ''.wav'' then
           command\<lparr>audioCodec := Some ''pcm_s16le''\<rparr>
         else
           command\<lparr>audioCodec := Some ''aac'', audioBitrate := Some (Fin 192)\<rparr>)"

section \<open>Artifacts and the request orchestrator\<close>

subsection \<open>File names\<close>

text \<open>
  Lines 28 to 31, the \<^verbatim>\<open>filename\<close> callback of the multer storage. \<open>now\<close> is the value
  of \<^verbatim>\<open>Date.now()\<close> (milliseconds, a natural number) and \<open>rnd\<close> the value of
  \<^verbatim>\<open>Math.random()\<close>, a number from 0 up to, not including, 1. \<^verbatim>\<open>Math.round\<close> of a
  number that is not negative is the floor of the number plus one half. (The product
  with \<open>10^9\<close> is taken exactly here.)
\<close>

definition storage_filename :: "nat \<Rightarrow> rat \<Rightarrow> string \<Rightarrow> string" where
  "storage_filename now rnd originalname =
     (let uniqueSuffix = decimal now @ ''-'' @ decimal (nat \<lfloor>rnd * 1000000000 + 1 / 2\<rfloor>)
      in uniqueSuffix @ extname originalname)"

text \<open>Line 226: the name of the output file.\<close>

definition outputFilename :: "nat \<Rightarrow> string \<Rightarrow> string" where
  "outputFilename now originalname = ''trimmed-'' @ decimal now @ extname originalname"

subsection \<open>The size reduction\<close>

text \<open>
  \<^verbatim>\<open>x.toFixed(f)\<close> as ECMAScript defines it: a number that is not finite prints as its
  name; otherwise the sign is split off, \<open>n\<close> is the integer nearest to \<open>x * 10^f\<close> (the
  larger one of two, on the exact value of the double \<open>x\<close>), and its digits, padded with
  zeros to \<open>f + 1\<close> digits, get a point before the last \<open>f\<close>. (Below \<open>10^21\<close>.)
\<close>

definition toFixed :: "number \<Rightarrow> nat \<Rightarrow> string" where
  "toFixed x f =
     (case x of
        NaN \<Rightarrow> ''NaN''
      | PosInfinity \<Rightarrow> ''Infinity''
      | NegInfinity \<Rightarrow> ''-Infinity''
      | Fin q \<Rightarrow>
          (let s = (if q < 0 then ''-'' else []);
               n = nat \<lfloor>\<bar>q\<bar> * 10 ^ f + 1 / 2\<rfloor>;
               m = decimal n;
               m' = (if length m \<le> f then replicate (f + 1 - length m) CHR ''0'' @ m else m);
               k = length m'
           in if f = 0 then s @ m'
              else s @ take (k - f) m' @ ''.'' @ drop (k - f) m'))"

text \<open>
  Line 253: \<^verbatim>\<open>((originalSize - newSize) / originalSize * 100).toFixed(2)\<close>. The two sizes
  are numbers of bytes; the difference, the quotient and the product are doubles, each
  rounded before it is used.
\<close>

definition percentage :: "nat \<Rightarrow> nat \<Rightarrow> number" where
  "percentage originalSize newSize =
     rounded
       (js_times
          (rounded
             (js_divide
                (rounded (js_minus (Fin (of_nat originalSize)) (Fin (of_nat newSize))))
                (Fin (of_nat originalSize))))
          (Fin 100))"

definition reduction :: "nat \<Rightarrow> nat \<Rightarrow> string" where
  "reduction originalSize newSize = toFixed (percentage originalSize newSize) 2"

subsection \<open>The file system\<close>

text \<open>The files that exist, each with its size in bytes.\<close>

type_synonym filesystem = "string \<rightharpoonup> nat"

definition existsSync :: "filesystem \<Rightarrow> string \<Rightarrow> bool" where
  "existsSync files p = (files p \<noteq> None)"

definition unlinkSync :: "filesystem \<Rightarrow> string \<Rightarrow> filesystem" where
  "unlinkSync files p = files(p := None)"

definition statSync :: "filesystem \<Rightarrow> string \<Rightarrow> error + nat" where
  "statSync files p =
     (case files p of
        None \<Rightarrow> Inl (Error (''ENOENT: no such file or directory, stat '' @ [CHR 0x27] @ p @ [CHR 0x27]))
      | Some n \<Rightarrow> Inr n)"

subsection \<open>The handler of \<^verbatim>\<open>POST /api/trim-silence\<close>\<close>

record upload =
  originalname :: string
  path :: string

record processing_result =
  filename :: string
  downloadUrl :: string
  originalSize :: nat
  newSize :: nat
  sizeReduction :: string

text \<open>
  The three responses of the handler: status 200 with the result, status 400 (no file),
  and status 500 with the message of the error.
\<close>

datatype response = Success processing_result | NoFileUploaded | Failed string

fun status :: "response \<Rightarrow> nat" where
  "status (Success r) = 200"
| "status NoFileUploaded = 400"
| "status (Failed m) = 500"

text \<open>
  What the handler does to the outside, in order: its console lines, the run of the
  ffmpeg command, the deletions, the response, and the timer it sets.
\<close>

datatype event =
    LogProcessing string
  | LogMetadata AudioMetadata
  | WarnMetadata string
  | RunFfmpeg command
  | LogError error
  | Unlink string
  | Respond response
  | SetTimeout nat string

record outcome =
  response :: response
  files :: filesystem
  trace :: "event list"

text \<open>
  The two external tools are parameters of the handler: \<open>ffprobe\<close> gives the error or the
  report for a path, and \<open>ffmpeg\<close> runs a command on the file system and gives the error
  it reports, if any, and the file system it leaves.
\<close>

type_synonym ffprobe_tool = "string \<Rightarrow> error + ffprobe_data"
type_synonym ffmpeg_tool = "command \<Rightarrow> filesystem \<Rightarrow> error option \<times> filesystem"

text \<open>Lines 233 to 239: the inner \<^verbatim>\<open>try\<close>, which catches every error of the prober.\<close>

definition probe_metadata :: "ffprobe_tool \<Rightarrow> string \<Rightarrow> AudioMetadata option \<times> event list" where
  "probe_metadata ffprobe inputPath =
     (case getAudioMetadata (ffprobe inputPath) of
        Inr metadata \<Rightarrow> (Some metadata, [LogMetadata metadata])
      | Inl err \<Rightarrow> (None, [WarnMetadata (message err)]))"

text \<open>
  Lines 230 to 269, the outer \<^verbatim>\<open>try\<close> block: \<open>Inl\<close> is the error it throws, \<open>Inr\<close> the
  response it has sent.
\<close>

definition try_block ::
  "ffprobe_tool \<Rightarrow> ffmpeg_tool \<Rightarrow> upload \<Rightarrow> string \<Rightarrow> string \<Rightarrow> filesystem
     \<Rightarrow> (error + response) \<times> filesystem \<times> event list" where
  "try_block ffprobe ffmpeg file name outputPath files0 =
     (let inputPath = path file;
          (metadata, probe_events) = probe_metadata ffprobe inputPath;
          command = removeSilence inputPath outputPath metadata;
          (failure, files1) = ffmpeg command files0;
          events = [LogProcessing (originalname file)] @ probe_events @ [RunFfmpeg command]
      in case failure of
           Some err \<Rightarrow> (Inl err, files1, events)
         | None \<Rightarrow>
             if \<not> existsSync files1 outputPath
             then (Inl (Error ''Output file was not created''), files1, events)
             else
               (case statSync files1 outputPath of
                  Inl err \<Rightarrow> (Inl err, files1, events)
                | Inr size1 \<Rightarrow>
                    (case statSync files1 inputPath of
                       Inl err \<Rightarrow> (Inl err, files1, events)
                     | Inr size0 \<Rightarrow>
                         (let r = Success
                                \<lparr>filename = name,
                                 downloadUrl = ''/api/download/'' @ name,
                                 originalSize = size0,
                                 newSize = size1,
                                 sizeReduction = reduction size0 size1 @ ''%''\<rparr>
                          in (Inr r, files1, events @ [Respond r, SetTimeout 5000 inputPath])))))"

text \<open>Lines 271 to 286: the \<^verbatim>\<open>catch\<close> block.\<close>

definition catch_block :: "error \<Rightarrow> string \<Rightarrow> string \<Rightarrow> filesystem \<Rightarrow> event list \<Rightarrow> outcome" where
  "catch_block err inputPath outputPath files1 events =
     (let (files2, ev2) =
            (if existsSync files1 inputPath
             then (unlinkSync files1 inputPath, [Unlink inputPath]) else (files1, []));
          (files3, ev3) =
            (if existsSync files2 outputPath
             then (unlinkSync files2 outputPath, [Unlink outputPath]) else (files2, []))
      in \<lparr>response = Failed (message err),
          files = files3,
          trace = events @ [LogError err] @ ev2 @ ev3 @ [Respond (Failed (message err))]\<rparr>)"

text \<open>
  Lines 220 to 287. \<open>outputDir\<close> is the output directory and \<open>now\<close> the value of
  \<^verbatim>\<open>Date.now()\<close> at line 226.
\<close>

definition trim_silence ::
  "ffprobe_tool \<Rightarrow> ffmpeg_tool \<Rightarrow> string \<Rightarrow> nat \<Rightarrow> upload option \<Rightarrow> filesystem \<Rightarrow> outcome" where
  "trim_silence ffprobe ffmpeg outputDir now req_file files0 =
     (case req_file of
        None \<Rightarrow> \<lparr>response = NoFileUploaded, files = files0, trace = [Respond NoFileUploaded]\<rparr>
      | Some file \<Rightarrow>
          (let inputPath = path file;
               name = outputFilename now (originalname file);
               outputPath = path_join outputDir name
           in case try_block ffprobe ffmpeg file name outputPath files0 of
                (Inr r, files1, events) \<Rightarrow> \<lparr>response = r, files = files1, trace = events\<rparr>
              | (Inl err, files1, events) \<Rightarrow> catch_block err inputPath outputPath files1 events))"

section \<open>The documented behaviour\<close>

text \<open>
  The definitions of this section follow the words of the specification; the theorems
  below compare them with the definitions taken from the source.
\<close>

subsection \<open>The codec table of the pipeline\<close>

text \<open>What a command selects: its codec, its bitrate in kbps and its further options.\<close>

type_synonym selection = "string option \<times> number option \<times> string list"

definition selected :: "command \<Rightarrow> selection" where
  "selected c = (audioCodec c, audioBitrate c, outputOptions c)"

text \<open>Two extensions match when they are equal up to the case of their letters.\<close>

definition same_ignoring_case :: "string \<Rightarrow> string \<Rightarrow> bool" where
  "same_ignoring_case a b = (map lower_char a = map lower_char b)"

text \<open>
  The codecs of the table and the ffmpeg encoders that produce them: MP3 is the encoder
  \<^verbatim>\<open>libmp3lame\<close>, Vorbis is \<^verbatim>\<open>libvorbis\<close>, uncompressed 16-bit PCM is \<^verbatim>\<open>pcm_s16le\<close>,
  and AAC-LC is the encoder \<^verbatim>\<open>aac\<close>, whose profile is the low-complexity one unless an
  option asks for another. The option \<^verbatim>\<open>-profile:a aac_low\<close> names that profile
  explicitly (line 176 of the source: "Use AAC-LC profile for compatibility").
\<close>

datatype codec = MP3 | AAC_LC | Vorbis | PCM_16

fun encoder :: "codec \<Rightarrow> string" where
  "encoder MP3 = ''libmp3lame''"
| "encoder AAC_LC = ''aac''"
| "encoder Vorbis = ''libvorbis''"
| "encoder PCM_16 = ''pcm_s16le''"

definition aac_lc_profile :: "string list" where
  "aac_lc_profile = [''-profile:a'', ''aac_low'']"

definition or_default :: "number option \<Rightarrow> rat \<Rightarrow> number option" where
  "or_default target d = (case target of Some k \<Rightarrow> Some k | None \<Rightarrow> Some (Fin d))"

text \<open>
  The table of section 4.2 as written: the row of an extension and the target bitrate
  (known or not) give the codec and the bitrate in kbps, if any.
\<close>

definition table_4_2 :: "string \<Rightarrow> number option \<Rightarrow> codec \<times> number option" where
  "table_4_2 ext target =
     (if same_ignoring_case ext ''.mp3'' \<or> same_ignoring_case ext ''.mpeg''
      then (MP3, or_default target 128)
      else if same_ignoring_case ext ''.m4a'' \<or> same_ignoring_case ext ''.mp4''
      then (AAC_LC, or_default target 96)
      else if same_ignoring_case ext ''.ogg''
      then (Vorbis, map_option (\<lambda>k. Math_min k (Fin 256)) target)
      else if same_ignoring_case ext ''.wav''
      then (PCM_16, None)
      else (AAC_LC, or_default target 96))"

text \<open>
  The same table on the level of the command: the encoder in place of the codec, and the
  options, which name the AAC-LC profile in the row of \<^verbatim>\<open>.m4a\<close> and \<^verbatim>\<open>.mp4\<close> and are
  empty in every other row.
\<close>

definition table_4_2_amended :: "string \<Rightarrow> number option \<Rightarrow> selection" where
  "table_4_2_amended ext target =
     (if same_ignoring_case ext ''.mp3'' \<or> same_ignoring_case ext ''.mpeg''
      then (Some ''libmp3lame'', or_default target 128, [])
      else if same_ignoring_case ext ''.m4a'' \<or> same_ignoring_case ext ''.mp4''
      then (Some ''aac'', or_default target 96, aac_lc_profile)
      else if same_ignoring_case ext ''.ogg''
      then (Some ''libvorbis'', map_option (\<lambda>k. Math_min k (Fin 256)) target, [])
      else if same_ignoring_case ext ''.wav''
      then (Some ''pcm_s16le'', None, [])
      else (Some ''aac'', or_default target 96, []))"

text \<open>The fixed selection of the legacy variant, as the specification describes it.\<close>

definition legacy_table :: "string \<Rightarrow> selection" where
  "legacy_table ext =
     (if same_ignoring_case ext ''.mp3'' \<or> same_ignoring_case ext ''.mpeg''
      then (Some ''libmp3lame'', Some (Fin 192), [])
      else if same_ignoring_case ext ''.ogg''
      then (Some ''libvorbis'', None, [])
      else if same_ignoring_case ext ''.wav''
      then (Some ''pcm_s16le'', None, [])
      else (Some ''aac'', Some (Fin 192), []))"

subsection \<open>The silence filter\<close>

text \<open>
  An ffmpeg filter is written \<^verbatim>\<open>name=key=value:key=value\<close>. For the filter
  \<^verbatim>\<open>silenceremove\<close>, \<^verbatim>\<open>stop_threshold\<close> is the level below which audio counts as
  silence, \<^verbatim>\<open>stop_duration\<close> the shortest run of silence that is removed, and a negative
  \<^verbatim>\<open>stop_periods\<close> removes every such run of the file rather than the trailing one.
\<close>

fun split_on :: "char \<Rightarrow> string \<Rightarrow> string list" where
  "split_on d [] = [[]]"
| "split_on d (c # cs) =
     (if c = d then [] # split_on d cs
      else (case split_on d cs of x # xs \<Rightarrow> (c # x) # xs | [] \<Rightarrow> [[c]]))"

definition key_value :: "string \<Rightarrow> string \<times> string" where
  "key_value s =
     (takeWhile (\<lambda>c. c \<noteq> CHR ''='') s, drop 1 (dropWhile (\<lambda>c. c \<noteq> CHR ''='') s))"

definition filter_name :: "string \<Rightarrow> string" where
  "filter_name f = fst (key_value f)"

definition filter_options :: "string \<Rightarrow> (string \<times> string) list" where
  "filter_options f = map key_value (split_on CHR '':'' (snd (key_value f)))"

subsection \<open>The bitrate of the prober\<close>

text \<open>
  A bitrate field is usable when it is present and parseable: the field is there (truthy)
  and \<^verbatim>\<open>parseInt\<close> reads a number from it other than \<open>NaN\<close> and zero. A bitrate of zero
  is no bitrate.
\<close>

definition usable :: "jsval \<Rightarrow> bool" where
  "usable v = (truthy v \<and> truthy_number (parseInt v))"

text \<open>
  The priority order of section 4.1: the stream-level field, else the container-level
  field, else the floor of size times 8 by duration, in the arithmetic of the program
  (doubles), when both are known and the duration is positive, else no bitrate.
\<close>

definition documented_bitrate :: "ffstream \<Rightarrow> ffformat option \<Rightarrow> number option" where
  "documented_bitrate s fmt =
     (if usable (bit_rate s) then Some (parseInt (bit_rate s))
      else
        (case fmt of
           None \<Rightarrow> None
         | Some f \<Rightarrow>
             if usable (format_bit_rate f) then Some (parseInt (format_bit_rate f))
             else if truthy (format_size f) \<and> truthy (format_duration f)
                     \<and> js_greater (parseFloat (format_duration f)) (Fin 0)
             then Some (Math_floor
                          (rounded
                             (js_divide (rounded (js_times (parseInt (format_size f)) (Fin 8)))
                                        (parseFloat (format_duration f)))))
             else None))"

subsection \<open>Rounding to two decimals\<close>

text \<open>
  The number of hundredths nearest to the absolute value of \<open>x\<close> (the larger of two): the
  digits before and after the point of \<open>x\<close> rounded to two decimals.
\<close>

definition hundredths :: "rat \<Rightarrow> nat" where
  "hundredths x = nat \<lfloor>\<bar>x\<bar> * 100 + 1 / 2\<rfloor>"

subsection \<open>Audio streams\<close>

definition is_audio :: "ffstream \<Rightarrow> bool" where
  "is_audio stream = (codec_type stream = Str ''audio'')"

subsection \<open>Events\<close>

fun is_respond :: "event \<Rightarrow> bool" where
  "is_respond (Respond r) = True"
| "is_respond e = False"

section \<open>Properties\<close>

subsection \<open>Arithmetic and strings\<close>

lemma Math_max_Fin: "Math_max (Fin a) (Fin b) = Fin (max a b)"
  by (simp add: max_def)

lemma Math_min_Fin: "Math_min (Fin a) (Fin b) = Fin (min a b)"
  by (simp add: min_def)

lemma floor_numeral_quotient:
  "\<lfloor>numeral a / numeral b :: rat\<rfloor> = numeral a div numeral b"
  using floor_divide_of_int_eq [of "numeral a" "numeral b", where ?'a = rat] by simp

lemma halvings_numeral:
  "halvings (numeral k) a = (if a < 2 then 0 else Suc (halvings (pred_numeral k) (a / 2)))"
  by (simp add: numeral_eq_Suc)

lemma doublings_numeral:
  "doublings (numeral k) a = (if 1 \<le> a then 0 else Suc (doublings (pred_numeral k) (a * 2)))"
  by (simp add: numeral_eq_Suc)

lemmas double_eval = to_double_def binade_def pow2_def nearest_even_def ties_to_even_def
  finite_or_infinite_def round_to_unit_def halvings_numeral doublings_numeral
  floor_numeral_quotient

subsection \<open>The error of rounding\<close>

lemma pow2_pos: "0 < pow2 e"
  by (simp add: pow2_def)

lemma pow2_power_int: "pow2 e = 2 powi e"
  by (simp add: pow2_def power_int_def power_one_over inverse_eq_divide)

lemma pow2_add: "pow2 (a + b) = pow2 a * pow2 b"
  by (simp add: pow2_power_int power_int_add)

lemma pow2_unit: "pow2 (e - 52) = pow2 e / 2 ^ 52"
  using pow2_add [of e "- 52"] by (simp add: pow2_def)

lemma pow2_nat: "pow2 (int d) = 2 ^ d"
  by (simp add: pow2_def)

lemma pow2_neg: "pow2 (- int d) = 1 / 2 ^ d"
  by (cases "d = 0") (simp_all add: pow2_def)

lemma halvings_bounds:
  "1 \<le> a \<Longrightarrow> a < 2 ^ Suc k \<Longrightarrow> 2 ^ halvings k a \<le> a \<and> a < 2 * 2 ^ halvings k a"
proof (induction k arbitrary: a)
  case 0
  then show ?case by simp
next
  case (Suc k)
  show ?case
  proof (cases "a < 2")
    case True
    then show ?thesis using Suc.prems by simp
  next
    case False
    then have "1 \<le> a / 2" "a / 2 < 2 ^ Suc k"
      using Suc.prems by simp_all
    from Suc.IH [OF this] False show ?thesis by simp
  qed
qed

lemma doublings_bounds:
  "0 < a \<Longrightarrow> 1 / 2 ^ k \<le> a \<Longrightarrow>
   (1 \<le> a \<and> doublings k a = 0)
   \<or> (1 / 2 ^ doublings k a \<le> a \<and> a < 2 / 2 ^ doublings k a)"
proof (induction k arbitrary: a)
  case 0
  then show ?case by simp
next
  case (Suc k)
  show ?case
  proof (cases "1 \<le> a")
    case True
    then show ?thesis by simp
  next
    case False
    have "0 < a * 2" "1 / 2 ^ k \<le> a * 2"
      using Suc.prems by (simp_all add: field_simps)
    from Suc.IH [OF this] False show ?thesis
      by (auto simp: field_simps)
  qed
qed

lemma binade_bounds:
  assumes "1 / 2 ^ 1022 \<le> a" and "a < 2 ^ 1025"
  shows "pow2 (binade a) \<le> a \<and> a < 2 * pow2 (binade a)"
proof (cases "1 \<le> a")
  case True
  then show ?thesis
    using halvings_bounds [of a 1024] assms(2) by (simp add: binade_def pow2_nat)
next
  case False
  have "0 < a" using assms(1) by (rule less_le_trans [rotated]) simp
  from doublings_bounds [OF this assms(1)] False show ?thesis
    by (simp add: binade_def pow2_neg)
qed

lemma nearest_even_error: "\<bar>of_int (nearest_even m) - m\<bar> \<le> 1 / 2"
proof -
  have "of_int \<lfloor>m\<rfloor> \<le> m" "m < of_int \<lfloor>m\<rfloor> + 1"
    by linarith+
  then show ?thesis
    unfolding nearest_even_def ties_to_even_def
    by (simp add: abs_le_iff)
qed

lemma round_to_unit_error:
  assumes "0 < u"
  shows "\<bar>round_to_unit a u - a\<bar> \<le> u / 2"
proof -
  have "round_to_unit a u - a = (of_int (nearest_even (a / u)) - a / u) * u"
    using assms by (simp add: round_to_unit_def left_diff_distrib)
  then have "\<bar>round_to_unit a u - a\<bar> = \<bar>of_int (nearest_even (a / u)) - a / u\<bar> * u"
    using assms by (simp add: abs_mult)
  also have "\<dots> \<le> 1 / 2 * u"
    using nearest_even_error [of "a / u"] assms by (intro mult_right_mono) simp_all
  finally show ?thesis by simp
qed

lemma to_double_error:
  assumes "1 / 2 ^ 1022 \<le> \<bar>q\<bar>" and "\<bar>q\<bar> < 2 ^ 1023"
  shows "\<exists>x. to_double q = Fin x \<and> \<bar>x - q\<bar> \<le> \<bar>q\<bar> / 2 ^ 53"
proof -
  define a where "a = \<bar>q\<bar>"
  define u where "u = pow2 (binade a - 52)"
  define r where "r = round_to_unit a u"
  have z: "(0::rat) < 1 / 2 ^ 1022" by simp
  have a0: "0 < a" unfolding a_def by (rule less_le_trans [OF z assms(1)])
  then have q0: "q \<noteq> 0" by (simp add: a_def)
  have p: "(2::rat) ^ 1023 \<le> 2 ^ 1025" by (rule power_increasing) simp_all
  have "a < 2 ^ 1025" unfolding a_def by (rule less_le_trans [OF assms(2) p])
  then have b: "pow2 (binade a) \<le> a"
    using binade_bounds [of a] assms(1) by (simp add: a_def)
  have u0: "0 < u" by (simp add: u_def pow2_pos)
  have "u / 2 = pow2 (binade a) / 2 ^ 53" by (simp add: u_def pow2_unit)
  also have "\<dots> \<le> a / 2 ^ 53" using b by (simp add: divide_right_mono)
  finally have e: "\<bar>r - a\<bar> \<le> a / 2 ^ 53"
    using round_to_unit_error [OF u0, of a] by (simp add: r_def)
  have "a / 2 ^ 53 \<le> a" using a0 by (simp add: field_simps)
  then have "r \<le> 2 * a" using e by linarith
  also have "\<dots> < 2 * 2 ^ 1023" using assms(2) by (simp add: a_def)
  also have "\<dots> = (2::rat) ^ 1024" by (simp only: power_Suc [symmetric]) simp
  finally have "\<not> 2 ^ 1024 \<le> r" by simp
  then have "to_double q = Fin (if q < 0 then - r else r)"
    using q0 by (simp add: to_double_def finite_or_infinite_def r_def u_def a_def)
  moreover have "\<bar>(if q < 0 then - r else r) - q\<bar> \<le> \<bar>q\<bar> / 2 ^ 53"
    using e by (auto simp: a_def abs_if split: if_splits)
  ultimately show ?thesis by blast
qed

lemma round_step:
  assumes "q = 0 \<or> (1 / 2 ^ 200 \<le> \<bar>q\<bar> \<and> \<bar>q\<bar> \<le> 2 ^ 200)"
  shows "\<exists>x. rounded (Fin q) = Fin x \<and> \<bar>x - q\<bar> \<le> \<bar>q\<bar> / 2 ^ 53
             \<and> \<bar>q\<bar> / 2 \<le> \<bar>x\<bar> \<and> \<bar>x\<bar> \<le> 2 * \<bar>q\<bar>"
proof (cases "q = 0")
  case True
  then show ?thesis by (simp add: to_double_def)
next
  case False
  then have r: "1 / 2 ^ 200 \<le> \<bar>q\<bar>" "\<bar>q\<bar> \<le> 2 ^ 200" using assms by simp_all
  have "(1::rat) / 2 ^ 1022 \<le> 1 / 2 ^ 200"
    by (intro divide_left_mono power_increasing) simp_all
  then have lo: "1 / 2 ^ 1022 \<le> \<bar>q\<bar>" using r(1) by (rule order_trans)
  have "(2::rat) ^ 200 < 2 ^ 1023"
    by (rule power_strict_increasing) simp_all
  with r(2) have hi: "\<bar>q\<bar> < 2 ^ 1023" by (rule le_less_trans)
  from to_double_error [OF lo hi] obtain x
    where x: "to_double q = Fin x" "\<bar>x - q\<bar> \<le> \<bar>q\<bar> / 2 ^ 53" by blast
  have "\<bar>q\<bar> / 2 ^ 53 \<le> \<bar>q\<bar> / 2" by (simp add: field_simps)
  with x(2) have "\<bar>x - q\<bar> \<le> \<bar>q\<bar> / 2" by (rule order_trans)
  then have "\<bar>q\<bar> / 2 \<le> \<bar>x\<bar>" "\<bar>x\<bar> \<le> 2 * \<bar>q\<bar>" by linarith+
  with x show ?thesis by simp
qed

lemma rel_error_scale:
  fixes x q y c k e :: rat
  assumes "\<bar>x - q\<bar> \<le> \<bar>q\<bar> * k" and "\<bar>y - x * c\<bar> \<le> \<bar>x * c\<bar> * e" and "0 \<le> e"
  shows "\<bar>y - q * c\<bar> \<le> \<bar>q * c\<bar> * (k + e + k * e)"
proof -
  have "\<bar>x\<bar> \<le> \<bar>q\<bar> + \<bar>q\<bar> * k" using assms(1) by linarith
  then have "\<bar>x\<bar> * (\<bar>c\<bar> * e) \<le> (\<bar>q\<bar> + \<bar>q\<bar> * k) * (\<bar>c\<bar> * e)"
    using assms(3) by (intro mult_right_mono) simp_all
  then have a: "\<bar>y - x * c\<bar> \<le> (\<bar>q\<bar> + \<bar>q\<bar> * k) * (\<bar>c\<bar> * e)"
    using assms(2) by (simp add: abs_mult mult.assoc)
  have "\<bar>x * c - q * c\<bar> = \<bar>x - q\<bar> * \<bar>c\<bar>"
    by (simp add: abs_mult [symmetric] left_diff_distrib)
  also have "\<dots> \<le> \<bar>q\<bar> * k * \<bar>c\<bar>"
    using assms(1) by (intro mult_right_mono) simp_all
  finally have b: "\<bar>x * c - q * c\<bar> \<le> \<bar>q\<bar> * k * \<bar>c\<bar>" .
  have "\<bar>y - q * c\<bar> \<le> \<bar>y - x * c\<bar> + \<bar>x * c - q * c\<bar>" by linarith
  also have "\<dots> \<le> (\<bar>q\<bar> + \<bar>q\<bar> * k) * (\<bar>c\<bar> * e) + \<bar>q\<bar> * k * \<bar>c\<bar>"
    using a b by linarith
  also have "\<dots> = \<bar>q * c\<bar> * (k + e + k * e)"
    by (simp add: abs_mult algebra_simps)
  finally show ?thesis .
qed

lemma nearest_even_int: "nearest_even (of_int n) = n"
  by (simp add: nearest_even_def ties_to_even_def)

lemma to_double_int:
  fixes m :: int
  assumes "\<bar>m\<bar> < 2 ^ 53"
  shows "to_double (of_int m) = Fin (of_int m)"
proof (cases "m = 0")
  case True
  then show ?thesis by (simp add: to_double_def)
next
  case False
  define a :: rat where "a = of_int \<bar>m\<bar>"
  define h where "h = halvings 1024 a"
  have "1 \<le> \<bar>m\<bar>" using False by simp
  then have "(of_int 1 :: rat) \<le> of_int \<bar>m\<bar>" by (simp only: of_int_le_iff)
  then have a1: "1 \<le> a" by (simp add: a_def)
  have "(of_int \<bar>m\<bar> :: rat) < of_int (2 ^ 53)" using assms by (simp only: of_int_less_iff)
  then have a2: "a < 2 ^ 53" by (simp add: a_def)
  have "(2::rat) ^ 53 \<le> 2 ^ Suc 1024" by (rule power_increasing) simp_all
  with a2 have "a < 2 ^ Suc 1024" by (rule less_le_trans)
  from halvings_bounds [OF a1 this] have "(2::rat) ^ h \<le> a" by (simp add: h_def)
  then have "(2::rat) ^ h < 2 ^ 53" using a2 by (rule le_less_trans)
  have h: "h < 53"
  proof (rule power_less_imp_less_exp)
    show "(1::rat) < 2" by simp
    show "(2::rat) ^ h < 2 ^ 53" by fact
  qed
  have b: "binade a = int h" using a1 by (simp add: binade_def h_def)
  have "int h - 52 = - int (52 - h)" using h by simp
  then have u: "pow2 (binade a - 52) = 1 / 2 ^ (52 - h)"
    by (simp only: b pow2_neg)
  have "a / (1 / 2 ^ (52 - h)) = of_int (\<bar>m\<bar> * 2 ^ (52 - h))"
    by (simp add: a_def)
  then have "round_to_unit a (1 / 2 ^ (52 - h)) = a"
    by (simp only: round_to_unit_def nearest_even_int) (simp add: a_def)
  then have r: "round_to_unit a (pow2 (binade a - 52)) = a"
    by (simp only: u)
  have "(2::rat) ^ 53 \<le> 2 ^ 1024" by (rule power_increasing) simp_all
  with a2 have "a < 2 ^ 1024" by (rule less_le_trans)
  then have n: "\<not> 2 ^ 1024 \<le> a" by simp
  have am: "\<bar>of_int m :: rat\<bar> = a" by (simp add: a_def)
  have "to_double (of_int m) = Fin (if (of_int m :: rat) < 0 then - a else a)"
    using False n by (simp add: to_double_def am r finite_or_infinite_def)
  then show ?thesis
    by (simp add: a_def abs_if)
qed

text \<open>
  Integers below \<open>2^53\<close> are doubles. For an integer bitrate below \<open>2^52\<close>, the floor of
  the rounded quotient by 1000 is the floor of the exact quotient.
\<close>

lemma kbps_floor_exact:
  fixes b :: int
  assumes "\<bar>b\<bar> < 2 ^ 52"
  shows "Math_floor (rounded (js_divide (Fin (of_int b)) (Fin 1000)))
         = Math_floor (js_divide (Fin (of_int b)) (Fin 1000))"
proof (cases "b mod 1000 = 0")
  case True
  define m where "m = b div 1000"
  have m: "b = m * 1000" using True div_mult_mod_eq [of b 1000] by (simp add: m_def)
  have "\<bar>m\<bar> * 1000 < 2 ^ 52" using assms by (simp add: m abs_mult)
  then have "\<bar>m\<bar> < 2 ^ 53" by simp
  then have "to_double (of_int m) = Fin (of_int m)" by (rule to_double_int)
  moreover have "(of_int b :: rat) / 1000 = of_int m" by (simp add: m)
  ultimately show ?thesis
    by simp
next
  case False
  define q :: rat where "q = of_int b / 1000"
  define f where "f = b div 1000"
  have "b \<noteq> 0" using False by auto
  then have "1 \<le> \<bar>b\<bar>" by simp
  then have "(of_int 1 :: rat) \<le> of_int \<bar>b\<bar>" by (simp only: of_int_le_iff)
  then have q1: "1 / 1000 \<le> \<bar>q\<bar>" by (simp add: q_def)
  have "(of_int \<bar>b\<bar> :: rat) < of_int (2 ^ 52)" using assms by (simp only: of_int_less_iff)
  then have q2: "\<bar>q\<bar> * 1000 < 2 ^ 52" by (simp add: q_def)
  have "q = 0 \<or> (1 / 2 ^ 200 \<le> \<bar>q\<bar> \<and> \<bar>q\<bar> \<le> 2 ^ 200)"
    using q1 q2 by simp
  from round_step [OF this] obtain x
    where x: "rounded (Fin q) = Fin x" "\<bar>x - q\<bar> \<le> \<bar>q\<bar> / 2 ^ 53" by blast
  have "\<bar>q\<bar> / 2 ^ 53 < 1 / 2000" using q2 by simp
  with x(2) have e: "\<bar>x - q\<bar> < 1 / 2000" by (rule le_less_trans)
  have "1 \<le> b mod 1000" "b mod 1000 \<le> 999"
    using False pos_mod_sign [of 1000 b] pos_mod_bound [of 1000 b] by simp_all
  then have "(of_int 1 :: rat) \<le> of_int (b mod 1000)" "(of_int (b mod 1000) :: rat) \<le> of_int 999"
    by (simp_all only: of_int_le_iff)
  moreover have "(of_int b :: rat) = of_int f * 1000 + of_int (b mod 1000)"
  proof -
    have "b = f * 1000 + b mod 1000" by (simp add: f_def)
    then have "(of_int b :: rat) = of_int (f * 1000 + b mod 1000)" by (rule arg_cong)
    then show ?thesis by simp
  qed
  ultimately have "of_int f + 1 / 1000 \<le> q" "q \<le> of_int f + 999 / 1000"
    by (simp_all add: q_def)
  with e have "of_int f \<le> x" "x < of_int f + 1" "of_int f \<le> q" "q < of_int f + 1"
    by linarith+
  then have "\<lfloor>x\<rfloor> = f" "\<lfloor>q\<rfloor> = f" by (simp_all add: floor_eq_iff)
  then show ?thesis
    using x(1) by (simp add: q_def del: rounded.simps)
qed

subsection \<open>The target bitrate\<close>




subsection \<open>The codec table\<close>

lemma max_32_nonzero: "max 32 (y::rat) \<noteq> 0"
  by (auto simp: max_def)

lemma clamp_truthy:
  "truthy_number b \<Longrightarrow> truthy_number (Math_max (Fin 32) (Math_floor (js_divide b (Fin 1000))))"
  by (cases b) (simp_all add: Math_max_Fin max_32_nonzero del: Math_max.simps, simp_all)

lemma target_truthy: "targetBitrate metadata = Some k \<Longrightarrow> truthy_number k"
  using clamp_truthy
  by (auto simp: targetBitrate_def simp del: Math_max.simps split: option.splits if_splits)

lemma lowered_mp3: "(toLowerCase s = ''.mp3'') = same_ignoring_case s ''.mp3''"
  and lowered_mpeg: "(toLowerCase s = ''.mpeg'') = same_ignoring_case s ''.mpeg''"
  and lowered_m4a: "(toLowerCase s = ''.m4a'') = same_ignoring_case s ''.m4a''"
  and lowered_mp4: "(toLowerCase s = ''.mp4'') = same_ignoring_case s ''.mp4''"
  and lowered_ogg: "(toLowerCase s = ''.ogg'') = same_ignoring_case s ''.ogg''"
  and lowered_wav: "(toLowerCase s = ''.wav'') = same_ignoring_case s ''.wav''"
  by (simp_all add: toLowerCase_def same_ignoring_case_def lower_char_def)

lemmas lowered = lowered_mp3 lowered_mpeg lowered_m4a lowered_mp4 lowered_ogg lowered_wav

lemma selection_unknown:
  "targetBitrate metadata = None \<Longrightarrow>
   selected (removeSilence inputPath outputPath metadata)
   = table_4_2_amended (extname outputPath) None"
  by (simp add: removeSilence_def table_4_2_amended_def selected_def ffmpeg_command_def
      or_default_def aac_lc_profile_def lowered)

lemma selection_known:
  "targetBitrate metadata = Some k \<Longrightarrow>
   selected (removeSilence inputPath outputPath metadata)
   = table_4_2_amended (extname outputPath) (Some k)"
  using target_truthy [of metadata k]
  by (simp add: removeSilence_def table_4_2_amended_def selected_def ffmpeg_command_def
      or_default_def aac_lc_profile_def lowered del: Math_min.simps)

lemma selection_table:
  "selected (removeSilence inputPath outputPath metadata)
   = table_4_2_amended (extname outputPath) (targetBitrate metadata)"
proof (cases "targetBitrate metadata")
  case None
  then show ?thesis
    using selection_unknown [of metadata inputPath outputPath] by simp
next
  case (Some k)
  then show ?thesis
    using selection_known [of metadata k inputPath outputPath] by simp
qed

text \<open>
  Claim C1. For every output path and every metadata, the command of \<^verbatim>\<open>removeSilence\<close>
  has the encoder of the codec and the bitrate that the table of section 4.2 gives for
  the extension of the output path, read without regard to case, and for the target
  bitrate: MP3 at the target or 128 kbps, AAC-LC at the target or 96 kbps, Vorbis at the
  smaller of the target and 256 kbps or with no bitrate, 16-bit PCM with no bitrate, and
  AAC-LC at the target or 96 kbps for every other extension. The options of the command
  name the AAC-LC profile for \<^verbatim>\<open>.m4a\<close> and \<^verbatim>\<open>.mp4\<close>; for every other extension there is
  no option, and the encoder \<^verbatim>\<open>aac\<close> of the last row runs with its own profile.
\<close>

theorem codec_table:
  "audioCodec (removeSilence inputPath outputPath metadata)
     = Some (encoder (fst (table_4_2 (extname outputPath) (targetBitrate metadata))))
   \<and> audioBitrate (removeSilence inputPath outputPath metadata)
       = snd (table_4_2 (extname outputPath) (targetBitrate metadata))
   \<and> outputOptions (removeSilence inputPath outputPath metadata)
       = (if same_ignoring_case (extname outputPath) ''.m4a''
             \<or> same_ignoring_case (extname outputPath) ''.mp4''
          then aac_lc_profile else [])"
proof -
  let ?ext = "extname outputPath" and ?target = "targetBitrate metadata"
  have "fst (table_4_2_amended ?ext ?target) = Some (encoder (fst (table_4_2 ?ext ?target)))"
    and "fst (snd (table_4_2_amended ?ext ?target)) = snd (table_4_2 ?ext ?target)"
    and "snd (snd (table_4_2_amended ?ext ?target))
         = (if same_ignoring_case ?ext ''.m4a'' \<or> same_ignoring_case ?ext ''.mp4''
            then aac_lc_profile else [])"
    by (simp_all add: table_4_2_amended_def table_4_2_def same_ignoring_case_def lower_char_def)
  moreover have "audioCodec (removeSilence inputPath outputPath metadata)
                   = fst (table_4_2_amended ?ext ?target)"
    and "audioBitrate (removeSilence inputPath outputPath metadata)
         = fst (snd (table_4_2_amended ?ext ?target))"
    and "outputOptions (removeSilence inputPath outputPath metadata)
         = snd (snd (table_4_2_amended ?ext ?target))"
    by (simp_all add: selection_table [of inputPath outputPath metadata, symmetric]
        selected_def)
  ultimately show ?thesis
    by (simp only:)
qed


subsection \<open>The silence filter\<close>

text \<open>
  Claim C4. Every command of \<^verbatim>\<open>removeSilence\<close> has exactly one audio filter, the filter
  \<^verbatim>\<open>silenceremove\<close> with a threshold of -30 dB, a minimum silence of 0.5 seconds and
  \<^verbatim>\<open>stop_periods = -1\<close> (every run of silence in the file); it sets no other parameter.
\<close>

theorem silence_filter:
  "audioFilters (removeSilence inputPath outputPath metadata)
     = [''silenceremove=stop_periods=-1:stop_duration=0.5:stop_threshold=-30dB'']
   \<and> (\<exists>f. audioFilters (removeSilence inputPath outputPath metadata) = [f]
          \<and> filter_name f = ''silenceremove''
          \<and> map_of (filter_options f) ''stop_threshold'' = Some ''-30dB''
          \<and> map_of (filter_options f) ''stop_duration'' = Some ''0.5''
          \<and> map_of (filter_options f) ''stop_periods'' = Some ''-1''
          \<and> map fst (filter_options f) = [''stop_periods'', ''stop_duration'', ''stop_threshold''])"
proof -
  let ?f = "''silenceremove=stop_periods=-1:stop_duration=0.5:stop_threshold=-30dB''"
  have a: "audioFilters (removeSilence inputPath outputPath metadata) = [?f]"
    by (simp add: removeSilence_def ffmpeg_command_def Let_def split: option.splits)
  have n: "filter_name ?f = ''silenceremove''"
    by (simp add: filter_name_def key_value_def)
  have o: "filter_options ?f
           = [(''stop_periods'', ''-1''), (''stop_duration'', ''0.5''), (''stop_threshold'', ''-30dB'')]"
    by (simp add: filter_options_def key_value_def)
  show ?thesis
    unfolding a using n o by simp
qed


subsection \<open>The legacy variant\<close>

text \<open>
  Claim C9. The legacy variant takes no metadata; its selection is fixed by the extension:
  MP3 at 192 kbps for \<^verbatim>\<open>.mp3\<close> and \<^verbatim>\<open>.mpeg\<close>, Vorbis at the codec default for
  \<^verbatim>\<open>.ogg\<close>, 16-bit PCM for \<^verbatim>\<open>.wav\<close>, and AAC at 192 kbps for \<^verbatim>\<open>.m4a\<close>,
  \<^verbatim>\<open>.mp4\<close> and every other extension. On an \<^verbatim>\<open>.mp3\<close> output with a known target
  bitrate other than 192 kbps the two variants build different commands, so they are not
  equivalent.
\<close>

theorem legacy_variant_differs:
  "selected (removeSilence_legacy inputPath outputPath) = legacy_table (extname outputPath)
   \<and> (same_ignoring_case (extname outputPath) ''.mp3'' \<and> targetBitrate metadata = Some k
        \<and> k \<noteq> Fin 192
        \<longrightarrow> removeSilence inputPath outputPath metadata
             \<noteq> removeSilence_legacy inputPath outputPath)
   \<and> (\<exists>i p m. removeSilence i p m \<noteq> removeSilence_legacy i p)"
proof -
  have a: "selected (removeSilence_legacy inputPath outputPath) = legacy_table (extname outputPath)"
    by (auto simp: removeSilence_legacy_def legacy_table_def selected_def ffmpeg_command_def
        toLowerCase_def same_ignoring_case_def lower_char_def Let_def)
  have b: "removeSilence inputPath outputPath metadata \<noteq> removeSilence_legacy inputPath outputPath"
    if "same_ignoring_case (extname outputPath) ''.mp3''" and "targetBitrate metadata = Some k"
      and "k \<noteq> Fin 192"
  proof -
    have "truthy_number k" using that(2) by (rule target_truthy)
    then have "audioBitrate (removeSilence inputPath outputPath metadata) = Some k"
      using that(1,2) by (simp add: removeSilence_def lowered)
    moreover have "audioBitrate (removeSilence_legacy inputPath outputPath) = Some (Fin 192)"
      using that(1) by (simp add: removeSilence_legacy_def lowered)
    ultimately show ?thesis using that(3) by auto
  qed
  have "removeSilence ''in.m4a'' ''out.m4a'' None \<noteq> removeSilence_legacy ''in.m4a'' ''out.m4a''"
    by (simp add: removeSilence_def removeSilence_legacy_def targetBitrate_def extname_def
        last_component_def toLowerCase_def lower_char_def ffmpeg_command_def Let_def)
  then have c: "\<exists>i p m. removeSilence i p m \<noteq> removeSilence_legacy i p" by blast
  from a b c show ?thesis by blast
qed

text \<open>
  The theorem at an \<^verbatim>\<open>.mp3\<close> output and a source of 128000 bits per second: 128 kbps
  against the fixed 192 kbps.
\<close>

theorem legacy_variant_differs_witness:
  "selected (removeSilence_legacy ''/srv/uploads/1700000000000-42.mp3''
               ''/srv/output/trimmed-1700000000001.mp3'')
     = (Some ''libmp3lame'', Some (Fin 192), [])
   \<and> selected (removeSilence ''/srv/uploads/1700000000000-42.mp3''
                 ''/srv/output/trimmed-1700000000001.mp3''
                 (Some \<lparr>bitrate = Some (Fin 128000), codec = Str ''mp3'',
                        sampleRate = Num (Fin 44100), channels = Num (Fin 2)\<rparr>))
     = (Some ''libmp3lame'', Some (Fin 128), [])
   \<and> removeSilence ''/srv/uploads/1700000000000-42.mp3''
        ''/srv/output/trimmed-1700000000001.mp3''
        (Some \<lparr>bitrate = Some (Fin 128000), codec = Str ''mp3'',
               sampleRate = Num (Fin 44100), channels = Num (Fin 2)\<rparr>)
     \<noteq> removeSilence_legacy ''/srv/uploads/1700000000000-42.mp3''
          ''/srv/output/trimmed-1700000000001.mp3''"
proof -
  let ?md = "\<lparr>bitrate = Some (Fin 128000), codec = Str ''mp3'',
              sampleRate = Num (Fin 44100), channels = Num (Fin 2)\<rparr>"
  let ?out = "''/srv/output/trimmed-1700000000001.mp3''"
  have e: "extname ?out = ''.mp3''"
    by (simp add: extname_def last_component_def)
  have s: "same_ignoring_case ''.mp3'' ''.mp3''"
    by (simp add: same_ignoring_case_def)
  have t: "targetBitrate (Some ?md) = Some (Fin 128)"
    by (simp add: targetBitrate_def floor_numeral_quotient)
  have l: "legacy_table ''.mp3'' = (Some ''libmp3lame'', Some (Fin 192), [])"
    by (simp add: legacy_table_def s)
  have c: "selected (removeSilence ''/srv/uploads/1700000000000-42.mp3'' ?out (Some ?md))
           = (Some ''libmp3lame'', Some (Fin 128), [])"
    using selection_known [OF t, of "''/srv/uploads/1700000000000-42.mp3''" ?out]
    by (simp add: e table_4_2_amended_def s or_default_def)
  show ?thesis
    using legacy_variant_differs [of "''/srv/uploads/1700000000000-42.mp3''" ?out "Some ?md"
        "Fin 128"] e s t l c
    by simp
qed


subsection \<open>The prober\<close>

lemma resolve_documented:
  "(documented_bitrate s fmt \<noteq> None \<longrightarrow> resolve_bitrate s fmt = documented_bitrate s fmt)
   \<and> (documented_bitrate s fmt = None \<longrightarrow> \<not> truthy_opt (resolve_bitrate s fmt))"
  by (cases fmt)
     (auto simp: resolve_bitrate_def stream_tier_def format_tier_def computed_tier_def
        documented_bitrate_def usable_def Let_def)

lemma find_audio: "find (\<lambda>stream. codec_type stream = Str ''audio'') xs = find is_audio xs"
  by (simp add: is_audio_def [abs_def])

text \<open>
  Claim C3. The prober fails exactly when the tool reports an error or the report has no
  audio stream. Otherwise it succeeds, with the codec, sample rate and channels of the first
  audio stream, and its bitrate follows the documented priority order: where that order
  gives a bitrate, the prober returns it; where it gives none, the prober returns a falsy
  value (\<^verbatim>\<open>null\<close>, \<open>NaN\<close> or zero), that is, no bitrate. The computed bitrate is the
  floor of the double that the program's product and quotient give.
\<close>

theorem probe_bitrate_priority:
  "((\<exists>e. getAudioMetadata probed = Inl e)
      = ((\<exists>e. probed = Inl e) \<or> (\<exists>d. probed = Inr d \<and> find is_audio (streams d) = None)))
   \<and> (probed = Inr d \<and> find is_audio (streams d) = Some s \<longrightarrow>
        (\<exists>md. getAudioMetadata probed = Inr md
           \<and> (documented_bitrate s (format d) \<noteq> None
                \<longrightarrow> bitrate md = documented_bitrate s (format d))
           \<and> (documented_bitrate s (format d) = None \<longrightarrow> \<not> truthy_opt (bitrate md))
           \<and> codec md = codec_name s \<and> sampleRate md = sample_rate s
           \<and> channels md = stream_channels s))"
proof -
  have a: "(\<exists>e. getAudioMetadata probed = Inl e)
      = ((\<exists>e. probed = Inl e) \<or> (\<exists>d. probed = Inr d \<and> find is_audio (streams d) = None))"
    by (cases probed) (auto simp: getAudioMetadata_def find_audio split: option.splits)
  have b: "\<exists>md. getAudioMetadata probed = Inr md
           \<and> (documented_bitrate s (format d) \<noteq> None
                \<longrightarrow> bitrate md = documented_bitrate s (format d))
           \<and> (documented_bitrate s (format d) = None \<longrightarrow> \<not> truthy_opt (bitrate md))
           \<and> codec md = codec_name s \<and> sampleRate md = sample_rate s
           \<and> channels md = stream_channels s"
    if "probed = Inr d" and "find is_audio (streams d) = Some s"
    using that resolve_documented [of s "format d"]
    by (simp add: getAudioMetadata_def find_audio)
  from a b show ?thesis by blast
qed

lemma parseInt_not_available: "parseInt_string ''N/A'' = NaN"
  by (simp add: parseInt_string_def is_white_def is_digit_def digit_value_def)

lemma parseFloat_example:
  "parseFloat_string ''1.07'' = Fin (4818851601286431 / 4503599627370496)"
proof -
  have "parseFloat_string ''1.07'' = to_double (107 / 100)"
    by (simp add: parseFloat_string_def is_white_def is_digit_def digit_value_def
        digits_value_def exponent_part_def scale10_def signed_def)
  then show ?thesis
    by (simp add: double_eval)
qed

lemma computed_example_1:
  "Math_floor (rounded (js_divide (rounded (js_times (Fin 4000000) (Fin 8))) (Fin (375 / 2))))
   = Fin 170666"
  by (simp add: double_eval)

lemma computed_example_2:
  "Math_floor (rounded (js_divide (rounded (js_times (Fin 8560) (Fin 8)))
                                  (Fin (4818851601286431 / 4503599627370496))))
   = Fin 63999"
  by (simp add: double_eval)

text \<open>
  The theorem at six reports: a stream bitrate; a stream bitrate \<^verbatim>\<open>N/A\<close> and a container
  bitrate; no bitrate field that parses, a size of 4000000 bytes and a duration of 187.5
  seconds; no bitrate field, a size of 8560 bytes and a duration of \<^verbatim>\<open>1.07\<close> seconds, where
  the double nearest to 1.07 lies above it and the quotient of 68480 by it below 64000; no
  bitrate and no format section; and no audio stream.
\<close>

theorem probe_bitrate_priority_witness:
  "(\<exists>md. getAudioMetadata
           (Inr \<lparr>streams =
                   [\<lparr>codec_type = Str ''video'', bit_rate = Num (Fin 900000),
                     codec_name = Str ''h264'', sample_rate = Undefined,
                     stream_channels = Undefined\<rparr>,
                    \<lparr>codec_type = Str ''audio'', bit_rate = Num (Fin 128000),
                     codec_name = Str ''aac'', sample_rate = Num (Fin 44100),
                     stream_channels = Num (Fin 2)\<rparr>],
                 format = Some \<lparr>format_bit_rate = Num (Fin 1030000),
                                format_size = Num (Fin 4000000),
                                format_duration = Num (Fin 250)\<rparr>\<rparr>) = Inr md
         \<and> bitrate md = Some (Fin 128000))
   \<and> (\<exists>md. getAudioMetadata
           (Inr \<lparr>streams =
                   [\<lparr>codec_type = Str ''audio'', bit_rate = Str ''N/A'',
                     codec_name = Str ''flac'', sample_rate = Num (Fin 44100),
                     stream_channels = Num (Fin 2)\<rparr>],
                 format = Some \<lparr>format_bit_rate = Num (Fin 130000),
                                format_size = Num (Fin 4000000),
                                format_duration = Num (Fin 250)\<rparr>\<rparr>) = Inr md
         \<and> bitrate md = Some (Fin 130000))
   \<and> (\<exists>md. getAudioMetadata
           (Inr \<lparr>streams =
                   [\<lparr>codec_type = Str ''audio'', bit_rate = Undefined,
                     codec_name = Str ''pcm_s16le'', sample_rate = Num (Fin 44100),
                     stream_channels = Num (Fin 2)\<rparr>],
                 format = Some \<lparr>format_bit_rate = Str ''N/A'',
                                format_size = Num (Fin 4000000),
                                format_duration = Num (Fin (375 / 2))\<rparr>\<rparr>) = Inr md
         \<and> bitrate md = Some (Fin 170666))
   \<and> (\<exists>md. getAudioMetadata
           (Inr \<lparr>streams =
                   [\<lparr>codec_type = Str ''audio'', bit_rate = Undefined,
                     codec_name = Str ''pcm_s16le'', sample_rate = Num (Fin 8000),
                     stream_channels = Num (Fin 1)\<rparr>],
                 format = Some \<lparr>format_bit_rate = Undefined,
                                format_size = Num (Fin 8560),
                                format_duration = Str ''1.07''\<rparr>\<rparr>) = Inr md
         \<and> bitrate md = Some (Fin 63999))
   \<and> (\<exists>md. getAudioMetadata
           (Inr \<lparr>streams =
                   [\<lparr>codec_type = Str ''audio'', bit_rate = Str ''N/A'',
                     codec_name = Str ''pcm_s16le'', sample_rate = Num (Fin 44100),
                     stream_channels = Num (Fin 2)\<rparr>],
                 format = None\<rparr>) = Inr md
         \<and> \<not> truthy_opt (bitrate md))
   \<and> (\<exists>e. getAudioMetadata
           (Inr \<lparr>streams =
                   [\<lparr>codec_type = Str ''video'', bit_rate = Num (Fin 900000),
                     codec_name = Str ''h264'', sample_rate = Undefined,
                     stream_channels = Undefined\<rparr>],
                 format = None\<rparr>) = Inl e)"
proof -
  let ?video = "\<lparr>codec_type = Str ''video'', bit_rate = Num (Fin 900000),
                 codec_name = Str ''h264'', sample_rate = Undefined,
                 stream_channels = Undefined\<rparr>"
  let ?s1 = "\<lparr>codec_type = Str ''audio'', bit_rate = Num (Fin 128000),
              codec_name = Str ''aac'', sample_rate = Num (Fin 44100),
              stream_channels = Num (Fin 2)\<rparr>"
  let ?f1 = "\<lparr>format_bit_rate = Num (Fin 1030000), format_size = Num (Fin 4000000),
              format_duration = Num (Fin 250)\<rparr>"
  let ?s2 = "\<lparr>codec_type = Str ''audio'', bit_rate = Str ''N/A'',
              codec_name = Str ''flac'', sample_rate = Num (Fin 44100),
              stream_channels = Num (Fin 2)\<rparr>"
  let ?f2 = "\<lparr>format_bit_rate = Num (Fin 130000), format_size = Num (Fin 4000000),
              format_duration = Num (Fin 250)\<rparr>"
  let ?s3 = "\<lparr>codec_type = Str ''audio'', bit_rate = Undefined,
              codec_name = Str ''pcm_s16le'', sample_rate = Num (Fin 44100),
              stream_channels = Num (Fin 2)\<rparr>"
  let ?f3 = "\<lparr>format_bit_rate = Str ''N/A'', format_size = Num (Fin 4000000),
              format_duration = Num (Fin (375 / 2))\<rparr>"
  let ?s4 = "\<lparr>codec_type = Str ''audio'', bit_rate = Str ''N/A'',
              codec_name = Str ''pcm_s16le'', sample_rate = Num (Fin 44100),
              stream_channels = Num (Fin 2)\<rparr>"
  let ?d1 = "\<lparr>streams = [?video, ?s1], format = Some ?f1\<rparr>"
  let ?d2 = "\<lparr>streams = [?s2], format = Some ?f2\<rparr>"
  let ?d3 = "\<lparr>streams = [?s3], format = Some ?f3\<rparr>"
  let ?s6 = "\<lparr>codec_type = Str ''audio'', bit_rate = Undefined,
              codec_name = Str ''pcm_s16le'', sample_rate = Num (Fin 8000),
              stream_channels = Num (Fin 1)\<rparr>"
  let ?f6 = "\<lparr>format_bit_rate = Undefined, format_size = Num (Fin 8560),
              format_duration = Str ''1.07''\<rparr>"
  let ?d6 = "\<lparr>streams = [?s6], format = Some ?f6\<rparr>"
  let ?d4 = "\<lparr>streams = [?s4], format = None\<rparr>"
  let ?d5 = "\<lparr>streams = [?video], format = None\<rparr>"
  have doc1: "documented_bitrate ?s1 (Some ?f1) = Some (Fin 128000)"
    by (simp add: documented_bitrate_def usable_def toward_zero_def)
  have doc2: "documented_bitrate ?s2 (Some ?f2) = Some (Fin 130000)"
    by (simp add: documented_bitrate_def usable_def toward_zero_def parseInt_not_available)
  have doc3: "documented_bitrate ?s3 (Some ?f3) = Some (Fin 170666)"
    using computed_example_1
    by (simp add: documented_bitrate_def usable_def toward_zero_def parseInt_not_available
        del: rounded.simps js_times.simps js_divide.simps Math_floor.simps)
  have doc6: "documented_bitrate ?s6 (Some ?f6) = Some (Fin 63999)"
    using computed_example_2
    by (simp add: documented_bitrate_def usable_def toward_zero_def parseFloat_example
        del: rounded.simps js_times.simps js_divide.simps Math_floor.simps)
  have doc4: "documented_bitrate ?s4 None = None"
    by (simp add: documented_bitrate_def usable_def parseInt_not_available)
  have w1: "\<exists>md. getAudioMetadata (Inr ?d1) = Inr md \<and> bitrate md = Some (Fin 128000)"
    using probe_bitrate_priority [of "Inr ?d1" ?d1 ?s1] doc1
    by (simp add: is_audio_def) blast
  have w2: "\<exists>md. getAudioMetadata (Inr ?d2) = Inr md \<and> bitrate md = Some (Fin 130000)"
    using probe_bitrate_priority [of "Inr ?d2" ?d2 ?s2] doc2
    by (simp add: is_audio_def) blast
  have w3: "\<exists>md. getAudioMetadata (Inr ?d3) = Inr md \<and> bitrate md = Some (Fin 170666)"
    using probe_bitrate_priority [of "Inr ?d3" ?d3 ?s3] doc3
    by (simp add: is_audio_def) blast
  have w6: "\<exists>md. getAudioMetadata (Inr ?d6) = Inr md \<and> bitrate md = Some (Fin 63999)"
    using probe_bitrate_priority [of "Inr ?d6" ?d6 ?s6] doc6
    by (simp add: is_audio_def) blast
  have w4: "\<exists>md. getAudioMetadata (Inr ?d4) = Inr md \<and> \<not> truthy_opt (bitrate md)"
    using probe_bitrate_priority [of "Inr ?d4" ?d4 ?s4] doc4
    by (simp add: is_audio_def) blast
  have w5: "\<exists>e. getAudioMetadata (Inr ?d5) = Inl e"
    using probe_bitrate_priority [of "Inr ?d5"]
    by (simp add: is_audio_def)
  from w1 w2 w3 w6 w4 w5 show ?thesis by (intro conjI)
qed

lemma falsy_stream_tier:
  "\<not> usable (bit_rate s) \<Longrightarrow> \<not> truthy_opt (stream_tier s)"
  by (simp add: usable_def stream_tier_def)

lemma falsy_target: "\<not> truthy_number b \<Longrightarrow> bitrate md = Some b \<Longrightarrow> targetBitrate (Some md) = None"
  by (simp add: targetBitrate_def)

lemma parseInt_zero: "parseInt_string ''0'' = Fin 0"
proof -
  have "parseInt_string ''0'' = to_double 0"
    by (simp add: parseInt_string_def is_white_def is_digit_def digit_value_def
        digits_value_def signed_def)
  then show ?thesis
    by (simp add: to_double_def)
qed

text \<open>
  Claim C10. In the prober, let the stream bitrate be no bitrate: the field is absent, or
  \<^verbatim>\<open>parseInt\<close> reads zero or \<open>NaN\<close> from it. Then the later tiers decide. A usable
  container bitrate is the result. Failing that, with a size and a positive duration, the
  result is the computed bitrate, the floor of size times 8 by duration. Failing both,
  and when there is no format section, the result is falsy. In each case the result is
  that of the same report without the stream field, the falsy value of the stream tier
  standing in where the later tiers give nothing. In the pipeline, let \<open>b\<close> be zero or
  \<open>NaN\<close>: a metadata object with bitrate \<open>b\<close> builds the same command as no metadata, with
  128 kbps for \<^verbatim>\<open>.mp3\<close> and 96 kbps wherever the codec is AAC, not the clamp \<open>max 32 0\<close>.
\<close>

theorem falsy_bitrate_is_unknown:
  assumes "\<not> usable (bit_rate s)" and "\<not> truthy_number b"
  shows "(usable (format_bit_rate f)
            \<longrightarrow> resolve_bitrate s (Some f) = Some (parseInt (format_bit_rate f)))
       \<and> (\<not> usable (format_bit_rate f) \<and> truthy (format_size f) \<and> truthy (format_duration f)
            \<and> js_greater (parseFloat (format_duration f)) (Fin 0)
            \<longrightarrow> resolve_bitrate s (Some f)
                = Some (Math_floor
                          (rounded
                             (js_divide (rounded (js_times (parseInt (format_size f)) (Fin 8)))
                                        (parseFloat (format_duration f))))))
       \<and> (\<not> usable (format_bit_rate f)
            \<and> \<not> (truthy (format_size f) \<and> truthy (format_duration f)
                   \<and> js_greater (parseFloat (format_duration f)) (Fin 0))
            \<longrightarrow> \<not> truthy_opt (resolve_bitrate s (Some f)))
       \<and> \<not> truthy_opt (resolve_bitrate s None)
       \<and> resolve_bitrate s fmt
           = (case resolve_bitrate (s\<lparr>bit_rate := Undefined\<rparr>) fmt of
                None \<Rightarrow> stream_tier s | Some x \<Rightarrow> Some x)
       \<and> (bitrate md = Some b \<longrightarrow>
            removeSilence inputPath outputPath (Some md) = removeSilence inputPath outputPath None
            \<and> (same_ignoring_case (extname outputPath) ''.mp3''
                 \<longrightarrow> audioBitrate (removeSilence inputPath outputPath (Some md)) = Some (Fin 128))
            \<and> (audioCodec (removeSilence inputPath outputPath (Some md)) = Some ''aac''
                 \<longrightarrow> audioBitrate (removeSilence inputPath outputPath (Some md)) = Some (Fin 96)))"
proof -
  note st = falsy_stream_tier [OF assms(1)]
  have p1: "resolve_bitrate s (Some f) = Some (parseInt (format_bit_rate f))"
    if "usable (format_bit_rate f)"
    using that st
    by (simp add: resolve_bitrate_def format_tier_def computed_tier_def usable_def)
  have p2: "resolve_bitrate s (Some f)
            = Some (Math_floor
                      (rounded
                         (js_divide (rounded (js_times (parseInt (format_size f)) (Fin 8)))
                                    (parseFloat (format_duration f)))))"
    if "\<not> usable (format_bit_rate f)" and "truthy (format_size f)"
      and "truthy (format_duration f)"
      and "js_greater (parseFloat (format_duration f)) (Fin 0)"
    using that st
    by (simp add: resolve_bitrate_def format_tier_def computed_tier_def usable_def Let_def
        del: rounded.simps js_times.simps js_divide.simps Math_floor.simps)
  have p3: "\<not> truthy_opt (resolve_bitrate s (Some f))"
    if "\<not> usable (format_bit_rate f)"
      and "\<not> (truthy (format_size f) \<and> truthy (format_duration f)
              \<and> js_greater (parseFloat (format_duration f)) (Fin 0))"
    using that st
    by (auto simp: resolve_bitrate_def format_tier_def computed_tier_def usable_def Let_def
        simp del: rounded.simps js_times.simps js_divide.simps Math_floor.simps)
  have p4: "\<not> truthy_opt (resolve_bitrate s None)"
    using st by (simp add: resolve_bitrate_def format_tier_def computed_tier_def)
  have p5: "resolve_bitrate s fmt
            = (case resolve_bitrate (s\<lparr>bit_rate := Undefined\<rparr>) fmt of
                 None \<Rightarrow> stream_tier s | Some x \<Rightarrow> Some x)"
    using st
    by (cases fmt)
       (auto simp: resolve_bitrate_def stream_tier_def format_tier_def computed_tier_def Let_def
          simp del: rounded.simps js_times.simps js_divide.simps Math_floor.simps)
  have t: "targetBitrate (Some md) = None" if "bitrate md = Some b"
    using assms(2) that by (rule falsy_target)
  have t0: "targetBitrate None = None"
    by (simp add: targetBitrate_def)
  have c: "removeSilence inputPath outputPath (Some md) = removeSilence inputPath outputPath None"
    if "bitrate md = Some b"
    using t [OF that] t0 by (simp add: removeSilence_def)
  have d: "audioBitrate (removeSilence inputPath outputPath None) = Some (Fin 128)"
    if "same_ignoring_case (extname outputPath) ''.mp3''"
    using that t0 by (simp add: removeSilence_def lowered)
  have e: "audioBitrate (removeSilence inputPath outputPath None) = Some (Fin 96)"
    if "audioCodec (removeSilence inputPath outputPath None) = Some ''aac''"
    using that t0 by (auto simp: removeSilence_def Let_def ffmpeg_command_def split: if_splits)
  have q: "bitrate md = Some b \<longrightarrow>
            removeSilence inputPath outputPath (Some md) = removeSilence inputPath outputPath None
            \<and> (same_ignoring_case (extname outputPath) ''.mp3''
                 \<longrightarrow> audioBitrate (removeSilence inputPath outputPath (Some md)) = Some (Fin 128))
            \<and> (audioCodec (removeSilence inputPath outputPath (Some md)) = Some ''aac''
                 \<longrightarrow> audioBitrate (removeSilence inputPath outputPath (Some md)) = Some (Fin 96))"
    using c d e by auto
  have r1: "usable (format_bit_rate f)
            \<longrightarrow> resolve_bitrate s (Some f) = Some (parseInt (format_bit_rate f))"
    using p1 by (rule impI)
  have r2: "\<not> usable (format_bit_rate f) \<and> truthy (format_size f) \<and> truthy (format_duration f)
            \<and> js_greater (parseFloat (format_duration f)) (Fin 0)
            \<longrightarrow> resolve_bitrate s (Some f)
                = Some (Math_floor
                          (rounded
                             (js_divide (rounded (js_times (parseInt (format_size f)) (Fin 8)))
                                        (parseFloat (format_duration f)))))"
    using p2 by blast
  have r3: "\<not> usable (format_bit_rate f)
            \<and> \<not> (truthy (format_size f) \<and> truthy (format_duration f)
                   \<and> js_greater (parseFloat (format_duration f)) (Fin 0))
            \<longrightarrow> \<not> truthy_opt (resolve_bitrate s (Some f))"
    using p3 by blast
  from r1 r2 r3 p4 p5 q show ?thesis
    by (intro conjI)
qed

text \<open>
  The theorem at a stream bitrate \<^verbatim>\<open>N/A\<close> with a container bitrate of 130000; at a stream
  bitrate \<^verbatim>\<open>0\<close> with a container bitrate \<^verbatim>\<open>N/A\<close>, a size of 4000000 bytes and a duration of
  187.5 seconds, where the computed tier gives 170666; and at a metadata object with
  bitrate 0 and an \<^verbatim>\<open>.mp3\<close> output.
\<close>

theorem falsy_bitrate_is_unknown_witness:
  "resolve_bitrate
     \<lparr>codec_type = Str ''audio'', bit_rate = Str ''N/A'', codec_name = Str ''flac'',
      sample_rate = Num (Fin 44100), stream_channels = Num (Fin 2)\<rparr>
     (Some \<lparr>format_bit_rate = Num (Fin 130000), format_size = Num (Fin 4000000),
            format_duration = Num (Fin 250)\<rparr>)
     = Some (Fin 130000)
   \<and> resolve_bitrate
       \<lparr>codec_type = Str ''audio'', bit_rate = Str ''0'', codec_name = Str ''pcm_s16le'',
        sample_rate = Num (Fin 44100), stream_channels = Num (Fin 2)\<rparr>
       (Some \<lparr>format_bit_rate = Str ''N/A'', format_size = Num (Fin 4000000),
              format_duration = Num (Fin (375 / 2))\<rparr>)
       = Some (Fin 170666)
   \<and> removeSilence ''/srv/uploads/1700000000000-42.mp3''
        ''/srv/output/trimmed-1700000000001.mp3''
        (Some \<lparr>bitrate = Some (Fin 0), codec = Str ''mp3'', sampleRate = Num (Fin 44100),
               channels = Num (Fin 2)\<rparr>)
     = removeSilence ''/srv/uploads/1700000000000-42.mp3''
         ''/srv/output/trimmed-1700000000001.mp3'' None
   \<and> audioBitrate
       (removeSilence ''/srv/uploads/1700000000000-42.mp3''
          ''/srv/output/trimmed-1700000000001.mp3''
          (Some \<lparr>bitrate = Some (Fin 0), codec = Str ''mp3'', sampleRate = Num (Fin 44100),
                 channels = Num (Fin 2)\<rparr>))
     = Some (Fin 128)"
proof -
  let ?s = "\<lparr>codec_type = Str ''audio'', bit_rate = Str ''N/A'', codec_name = Str ''flac'',
             sample_rate = Num (Fin 44100), stream_channels = Num (Fin 2)\<rparr>"
  let ?f = "\<lparr>format_bit_rate = Num (Fin 130000), format_size = Num (Fin 4000000),
             format_duration = Num (Fin 250)\<rparr>"
  let ?s' = "\<lparr>codec_type = Str ''audio'', bit_rate = Str ''0'', codec_name = Str ''pcm_s16le'',
              sample_rate = Num (Fin 44100), stream_channels = Num (Fin 2)\<rparr>"
  let ?f' = "\<lparr>format_bit_rate = Str ''N/A'', format_size = Num (Fin 4000000),
              format_duration = Num (Fin (375 / 2))\<rparr>"
  let ?md = "\<lparr>bitrate = Some (Fin 0), codec = Str ''mp3'', sampleRate = Num (Fin 44100),
              channels = Num (Fin 2)\<rparr>"
  let ?in = "''/srv/uploads/1700000000000-42.mp3''"
  let ?out = "''/srv/output/trimmed-1700000000001.mp3''"
  have z: "\<not> truthy_number (Fin 0)" by simp
  have u: "\<not> usable (bit_rate ?s)"
    by (simp add: usable_def parseInt_not_available)
  have u': "\<not> usable (bit_rate ?s')"
    by (simp add: usable_def parseInt_zero)
  have v: "usable (format_bit_rate ?f)"
    by (simp add: usable_def toward_zero_def)
  have v': "\<not> usable (format_bit_rate ?f') \<and> truthy (format_size ?f')
            \<and> truthy (format_duration ?f')
            \<and> js_greater (parseFloat (format_duration ?f')) (Fin 0)"
    by (simp add: usable_def parseInt_not_available)
  have e: "same_ignoring_case (extname ?out) ''.mp3''"
    by (simp add: extname_def last_component_def same_ignoring_case_def)
  have "resolve_bitrate ?s (Some ?f) = Some (parseInt (format_bit_rate ?f))"
    by (rule mp [OF conjunct1 [OF falsy_bitrate_is_unknown [OF u z]] v])
  then have a: "resolve_bitrate ?s (Some ?f) = Some (Fin 130000)"
    by (simp add: toward_zero_def)
  have "resolve_bitrate ?s' (Some ?f')
        = Some (Math_floor
                  (rounded
                     (js_divide (rounded (js_times (parseInt (format_size ?f')) (Fin 8)))
                                (parseFloat (format_duration ?f')))))"
    by (rule mp [OF conjunct1 [OF conjunct2 [OF falsy_bitrate_is_unknown [OF u' z]]] v'])
  then have a': "resolve_bitrate ?s' (Some ?f') = Some (Fin 170666)"
    using computed_example_1
    by (simp add: toward_zero_def
        del: rounded.simps js_times.simps js_divide.simps Math_floor.simps)
  have m: "bitrate ?md = Some (Fin 0)" by simp
  note g = mp [OF conjunct2 [OF conjunct2 [OF conjunct2 [OF conjunct2 [OF conjunct2
        [OF falsy_bitrate_is_unknown [OF u z, of ?f "Some ?f" ?md ?in ?out]]]]]] m]
  have b: "removeSilence ?in ?out (Some ?md) = removeSilence ?in ?out None"
    by (rule g [THEN conjunct1])
  have c: "audioBitrate (removeSilence ?in ?out (Some ?md)) = Some (Fin 128)"
    by (rule mp [OF g [THEN conjunct2, THEN conjunct1] e])
  from a a' b c show ?thesis by (intro conjI)
qed


subsection \<open>The request orchestrator\<close>

lemma trace_prefix:
  "\<exists>rest. trace (trim_silence ffprobe ffmpeg outputDir now (Some req_file) files0)
     = [LogProcessing (originalname req_file)] @ snd (probe_metadata ffprobe (path req_file))
       @ [RunFfmpeg (removeSilence (path req_file)
                      (path_join outputDir (outputFilename now (originalname req_file)))
                      (fst (probe_metadata ffprobe (path req_file))))] @ rest"
  by (auto simp: trim_silence_def try_block_def catch_block_def Let_def
      split: prod.splits option.splits sum.splits)

lemma success_iff:
  "(\<exists>r. response (trim_silence ffprobe ffmpeg outputDir now (Some req_file) files0) = Success r)
   = (let command = removeSilence (path req_file)
                      (path_join outputDir (outputFilename now (originalname req_file)))
                      (fst (probe_metadata ffprobe (path req_file)));
          files1 = snd (ffmpeg command files0)
      in fst (ffmpeg command files0) = None
         \<and> existsSync files1 (path_join outputDir (outputFilename now (originalname req_file)))
         \<and> existsSync files1 (path req_file))"
  by (auto simp: trim_silence_def try_block_def catch_block_def Let_def existsSync_def
      statSync_def split: prod.splits option.splits sum.splits)

lemma status_cases:
  "status (response (trim_silence ffprobe ffmpeg outputDir now (Some req_file) files0)) = 200
   \<or> status (response (trim_silence ffprobe ffmpeg outputDir now (Some req_file) files0)) = 500"
  by (auto simp: trim_silence_def try_block_def catch_block_def Let_def
      split: prod.splits option.splits sum.splits)

lemma success_result:
  assumes "response (trim_silence ffprobe ffmpeg outputDir now (Some req_file) files0) = Success r"
  shows "\<exists>files1 command.
           ffmpeg command files0 = (None, files1)
         \<and> command = removeSilence (path req_file)
                      (path_join outputDir (outputFilename now (originalname req_file)))
                      (fst (probe_metadata ffprobe (path req_file)))
         \<and> files1 (path req_file) = Some (originalSize r)
         \<and> files1 (path_join outputDir (outputFilename now (originalname req_file))) = Some (newSize r)
         \<and> sizeReduction r = reduction (originalSize r) (newSize r) @ ''%''
         \<and> filename r = outputFilename now (originalname req_file)
         \<and> downloadUrl r = ''/api/download/'' @ filename r"
  using assms
  by (auto simp: trim_silence_def try_block_def catch_block_def Let_def existsSync_def
      statSync_def split: prod.splits option.splits sum.splits if_splits)

lemma output_name_example:
  "outputFilename 1700000000001 ''talk.mp3'' = ''trimmed-1700000000001.mp3''"
  by (simp add: outputFilename_def extname_def last_component_def decimal.simps digit_char_def)

lemma command_paths:
  "cmd_input (removeSilence inputPath outputPath metadata) = inputPath"
  "cmd_output (removeSilence inputPath outputPath metadata) = outputPath"
  by (simp_all add: removeSilence_def ffmpeg_command_def Let_def split: option.splits)


lemma catch_block_cleans:
  "\<not> existsSync (files (catch_block err inputPath outputPath files1 events)) inputPath
   \<and> \<not> existsSync (files (catch_block err inputPath outputPath files1 events)) outputPath
   \<and> (\<forall>p. p \<noteq> inputPath \<and> p \<noteq> outputPath
          \<longrightarrow> files (catch_block err inputPath outputPath files1 events) p = files1 p)"
  by (simp add: catch_block_def existsSync_def unlinkSync_def Let_def split: prod.splits)

lemma catch_block_trace:
  "\<exists>pre. trace (catch_block err inputPath outputPath files1 events)
           = events @ pre @ [Respond (response (catch_block err inputPath outputPath files1 events))]
        \<and> \<not> list_ex is_respond pre
        \<and> (existsSync files1 inputPath \<longrightarrow> Unlink inputPath \<in> set pre)
        \<and> (existsSync files1 outputPath \<and> outputPath \<noteq> inputPath
             \<longrightarrow> Unlink outputPath \<in> set pre)"
  by (auto simp: catch_block_def existsSync_def unlinkSync_def Let_def split: prod.splits)

lemma failure_is_catch:
  assumes "status (response (trim_silence ffprobe ffmpeg outputDir now (Some req_file) files0)) = 500"
  shows "\<exists>err.
           trim_silence ffprobe ffmpeg outputDir now (Some req_file) files0
           = catch_block err (path req_file)
               (path_join outputDir (outputFilename now (originalname req_file)))
               (snd (ffmpeg (removeSilence (path req_file)
                      (path_join outputDir (outputFilename now (originalname req_file)))
                      (fst (probe_metadata ffprobe (path req_file)))) files0))
               ([LogProcessing (originalname req_file)] @ snd (probe_metadata ffprobe (path req_file))
                @ [RunFfmpeg (removeSilence (path req_file)
                      (path_join outputDir (outputFilename now (originalname req_file)))
                      (fst (probe_metadata ffprobe (path req_file))))])"
  using assms
  by (auto simp: trim_silence_def try_block_def Let_def
      split: prod.splits option.splits sum.splits if_splits)

text \<open>
  Claim C6. When ffmpeg reports an error or leaves no output file, the response has status
  500. Whenever the response has status 500, neither the input path nor the output path
  exists afterwards, every other file is as ffmpeg left it, and the response is the last
  event of the handler: the deletions of the files that existed come before it.
\<close>

theorem failure_cleanup:
  fixes ffprobe :: ffprobe_tool and ffmpeg :: ffmpeg_tool and req_file :: upload
    and outputDir :: string and now :: nat and files0 :: filesystem
  defines "inputPath \<equiv> path req_file"
      and "outputPath \<equiv> path_join outputDir (outputFilename now (originalname req_file))"
      and "command \<equiv> removeSilence (path req_file)
                        (path_join outputDir (outputFilename now (originalname req_file)))
                        (fst (probe_metadata ffprobe (path req_file)))"
      and "out \<equiv> trim_silence ffprobe ffmpeg outputDir now (Some req_file) files0"
  shows "(fst (ffmpeg command files0) \<noteq> None
            \<or> \<not> existsSync (snd (ffmpeg command files0)) outputPath
          \<longrightarrow> status (response out) = 500)
       \<and> (status (response out) = 500 \<longrightarrow>
            \<not> existsSync (files out) inputPath
          \<and> \<not> existsSync (files out) outputPath
          \<and> (\<forall>p. p \<noteq> inputPath \<and> p \<noteq> outputPath
                 \<longrightarrow> files out p = snd (ffmpeg command files0) p)
          \<and> (\<exists>pre. trace out = pre @ [Respond (response out)]
                 \<and> \<not> list_ex is_respond pre
                 \<and> RunFfmpeg command \<in> set pre
                 \<and> (existsSync (snd (ffmpeg command files0)) inputPath
                      \<longrightarrow> Unlink inputPath \<in> set pre)
                 \<and> (existsSync (snd (ffmpeg command files0)) outputPath
                        \<and> outputPath \<noteq> inputPath
                      \<longrightarrow> Unlink outputPath \<in> set pre)))"
proof -
  let ?files1 = "snd (ffmpeg command files0)"
  have a: "status (response out) = 500"
    if "fst (ffmpeg command files0) \<noteq> None \<or> \<not> existsSync ?files1 outputPath"
  proof -
    have "\<not> (\<exists>r. response out = Success r)"
      using that unfolding out_def command_def outputPath_def success_iff
      by (auto simp: Let_def)
    then have "status (response out) \<noteq> 200"
      by (cases "response out") auto
    then show ?thesis
      using status_cases [of ffprobe ffmpeg outputDir now req_file files0]
      unfolding out_def by blast
  qed
  have b: "\<not> existsSync (files out) inputPath
          \<and> \<not> existsSync (files out) outputPath
          \<and> (\<forall>p. p \<noteq> inputPath \<and> p \<noteq> outputPath \<longrightarrow> files out p = ?files1 p)
          \<and> (\<exists>pre. trace out = pre @ [Respond (response out)]
                 \<and> \<not> list_ex is_respond pre
                 \<and> RunFfmpeg command \<in> set pre
                 \<and> (existsSync ?files1 inputPath \<longrightarrow> Unlink inputPath \<in> set pre)
                 \<and> (existsSync ?files1 outputPath \<and> outputPath \<noteq> inputPath
                      \<longrightarrow> Unlink outputPath \<in> set pre))"
    if "status (response out) = 500"
  proof -
    let ?events = "[LogProcessing (originalname req_file)] @ snd (probe_metadata ffprobe (path req_file))
                   @ [RunFfmpeg command]"
    have "\<exists>err. out = catch_block err inputPath outputPath ?files1 ?events"
      using failure_is_catch [of ffprobe ffmpeg outputDir now req_file files0] that
      unfolding out_def command_def outputPath_def inputPath_def by simp
    then obtain err where o: "out = catch_block err inputPath outputPath ?files1 ?events"
      by blast
    obtain pre where p: "trace out = ?events @ pre @ [Respond (response out)]"
      "\<not> list_ex is_respond pre"
      "existsSync ?files1 inputPath \<longrightarrow> Unlink inputPath \<in> set pre"
      "existsSync ?files1 outputPath \<and> outputPath \<noteq> inputPath \<longrightarrow> Unlink outputPath \<in> set pre"
      using catch_block_trace [of err inputPath outputPath ?files1 ?events]
      unfolding o by blast
    have q: "\<not> list_ex is_respond (?events @ pre)"
      using p(2) by (auto simp: probe_metadata_def list_ex_iff split: sum.splits)
    have "trace out = (?events @ pre) @ [Respond (response out)]
          \<and> \<not> list_ex is_respond (?events @ pre)
          \<and> RunFfmpeg command \<in> set (?events @ pre)
          \<and> (existsSync ?files1 inputPath \<longrightarrow> Unlink inputPath \<in> set (?events @ pre))
          \<and> (existsSync ?files1 outputPath \<and> outputPath \<noteq> inputPath
               \<longrightarrow> Unlink outputPath \<in> set (?events @ pre))"
      using p q by simp
    then have "\<exists>pre. trace out = pre @ [Respond (response out)]
                 \<and> \<not> list_ex is_respond pre
                 \<and> RunFfmpeg command \<in> set pre
                 \<and> (existsSync ?files1 inputPath \<longrightarrow> Unlink inputPath \<in> set pre)
                 \<and> (existsSync ?files1 outputPath \<and> outputPath \<noteq> inputPath
                      \<longrightarrow> Unlink outputPath \<in> set pre)"
      by blast
    then show ?thesis
      using catch_block_cleans [of err inputPath outputPath ?files1 ?events]
      unfolding o by blast
  qed
  from a b show ?thesis by blast
qed

text \<open>
  The theorem at a request whose probe and whose ffmpeg run both fail, the latter after
  writing 4096 bytes of output: the response has status 500, and of the three files only
  the output of an earlier request is left.
\<close>

theorem failure_cleanup_witness:
  "status (response
       (trim_silence
          (\<lambda>p. Inl (Error ''ffprobe exited with code 1''))
          (\<lambda>c fs. (Some (Error ''ffmpeg exited with code 1''), fs(cmd_output c \<mapsto> 4096)))
          ''/srv/output'' 1700000000001
          (Some \<lparr>originalname = ''talk.mp3'', path = ''/srv/uploads/1700000000000-42.mp3''\<rparr>)
          [''/srv/uploads/1700000000000-42.mp3'' \<mapsto> 1000000,
           ''/srv/output/trimmed-1699999999999.wav'' \<mapsto> 52])) = 500
   \<and> files
       (trim_silence
          (\<lambda>p. Inl (Error ''ffprobe exited with code 1''))
          (\<lambda>c fs. (Some (Error ''ffmpeg exited with code 1''), fs(cmd_output c \<mapsto> 4096)))
          ''/srv/output'' 1700000000001
          (Some \<lparr>originalname = ''talk.mp3'', path = ''/srv/uploads/1700000000000-42.mp3''\<rparr>)
          [''/srv/uploads/1700000000000-42.mp3'' \<mapsto> 1000000,
           ''/srv/output/trimmed-1699999999999.wav'' \<mapsto> 52])
     = [''/srv/output/trimmed-1699999999999.wav'' \<mapsto> 52]"
proof -
  let ?probe = "\<lambda>p :: string. (Inl (Error ''ffprobe exited with code 1'') :: error + ffprobe_data)"
  let ?tool = "\<lambda>(c :: command) (fs :: filesystem).
                 (Some (Error ''ffmpeg exited with code 1''), fs(cmd_output c \<mapsto> 4096))"
  let ?upload = "\<lparr>originalname = ''talk.mp3'', path = ''/srv/uploads/1700000000000-42.mp3''\<rparr>"
  let ?files0 = "[''/srv/uploads/1700000000000-42.mp3'' \<mapsto> 1000000,
                 ''/srv/output/trimmed-1699999999999.wav'' \<mapsto> (52::nat)]"
  let ?out = "trim_silence ?probe ?tool ''/srv/output'' 1700000000001 (Some ?upload) ?files0"
  note c = failure_cleanup [where ffprobe = ?probe and ffmpeg = ?tool
        and req_file = ?upload and outputDir = "''/srv/output''" and now = 1700000000001
        and ?files0.0 = ?files0]
  have s: "status (response ?out) = 500"
    by (rule mp [OF conjunct1 [OF c]]) simp
  note d = mp [OF conjunct2 [OF c] s]
  have e: "\<not> existsSync (files ?out) ''/srv/uploads/1700000000000-42.mp3''"
          "\<not> existsSync (files ?out) ''/srv/output/trimmed-1700000000001.mp3''"
          "\<forall>p. p \<noteq> ''/srv/uploads/1700000000000-42.mp3''
                \<and> p \<noteq> ''/srv/output/trimmed-1700000000001.mp3''
             \<longrightarrow> files ?out p = (?files0(''/srv/output/trimmed-1700000000001.mp3'' \<mapsto> 4096)) p"
    using d [THEN conjunct1] d [THEN conjunct2, THEN conjunct1]
      d [THEN conjunct2, THEN conjunct2, THEN conjunct1]
    by (simp_all add: output_name_example path_join_def command_paths)
  have "files ?out p = [''/srv/output/trimmed-1699999999999.wav'' \<mapsto> 52] p" for p
  proof -
    consider "p = ''/srv/uploads/1700000000000-42.mp3''"
      | "p = ''/srv/output/trimmed-1700000000001.mp3''"
      | "p \<noteq> ''/srv/uploads/1700000000000-42.mp3''"
        "p \<noteq> ''/srv/output/trimmed-1700000000001.mp3''"
      by blast
    then show ?thesis
    proof cases
      case 1
      then show ?thesis using e(1) by (simp add: existsSync_def)
    next
      case 2
      then show ?thesis using e(2) by (simp add: existsSync_def)
    next
      case 3
      then have "files ?out p
                 = (?files0(''/srv/output/trimmed-1700000000001.mp3'' \<mapsto> 4096)) p"
        using e(3) by blast
      then show ?thesis using 3 by simp
    qed
  qed
  then have "files ?out = [''/srv/output/trimmed-1699999999999.wav'' \<mapsto> 52]"
    by (rule ext)
  with s show ?thesis by simp
qed


text \<open>
  Claim C5. When the prober fails, whatever the error, the handler logs a warning with the
  message of the error and runs the pipeline with no metadata, so with the default
  bitrates of the table; the request then succeeds (status 200) exactly when ffmpeg reports
  no error and both the output and the input file exist afterwards.
\<close>

theorem probe_failure_not_fatal:
  fixes ffprobe :: ffprobe_tool and ffmpeg :: ffmpeg_tool and req_file :: upload
    and outputDir :: string and now :: nat and files0 :: filesystem
  defines "inputPath \<equiv> path req_file"
      and "outputPath \<equiv> path_join outputDir (outputFilename now (originalname req_file))"
      and "command \<equiv> removeSilence (path req_file)
                        (path_join outputDir (outputFilename now (originalname req_file))) None"
      and "out \<equiv> trim_silence ffprobe ffmpeg outputDir now (Some req_file) files0"
  assumes "getAudioMetadata (ffprobe (path req_file)) = Inl err"
  shows "take 3 (trace out)
           = [LogProcessing (originalname req_file), WarnMetadata (message err), RunFfmpeg command]
       \<and> selected command = table_4_2_amended (extname outputPath) None
       \<and> (status (response out) = 200)
           = (fst (ffmpeg command files0) = None
              \<and> existsSync (snd (ffmpeg command files0)) outputPath
              \<and> existsSync (snd (ffmpeg command files0)) inputPath)"
proof -
  have m: "probe_metadata ffprobe (path req_file) = (None, [WarnMetadata (message err)])"
    using assms(5) by (simp add: probe_metadata_def)
  have a: "take 3 (trace out)
           = [LogProcessing (originalname req_file), WarnMetadata (message err), RunFfmpeg command]"
    using trace_prefix [of ffprobe ffmpeg outputDir now req_file files0]
    unfolding out_def command_def m by auto
  have b: "selected command = table_4_2_amended (extname outputPath) None"
    using selection_unknown [of None "path req_file" outputPath]
    unfolding command_def outputPath_def by (simp add: targetBitrate_def)
  have "(status (response out) = 200) = (\<exists>r. response out = Success r)"
    by (cases "response out") auto
  then have c: "(status (response out) = 200)
           = (fst (ffmpeg command files0) = None
              \<and> existsSync (snd (ffmpeg command files0)) outputPath
              \<and> existsSync (snd (ffmpeg command files0)) inputPath)"
    unfolding out_def success_iff m command_def outputPath_def inputPath_def
    by (simp add: Let_def)
  from a b c show ?thesis by blast
qed

text \<open>
  The theorem at an upload whose only stream is a video stream: the prober fails with
  "No audio stream found", the pipeline runs with 128 kbps, and the request succeeds.
\<close>

theorem probe_failure_not_fatal_witness:
  "getAudioMetadata
     (Inr \<lparr>streams = [\<lparr>codec_type = Str ''video'', bit_rate = Num (Fin 900000),
                         codec_name = Str ''h264'', sample_rate = Undefined,
                         stream_channels = Undefined\<rparr>],
           format = None\<rparr>)
   = Inl (Error ''No audio stream found'')
   \<and> status (response
       (trim_silence
          (\<lambda>p. Inr \<lparr>streams = [\<lparr>codec_type = Str ''video'', bit_rate = Num (Fin 900000),
                                codec_name = Str ''h264'', sample_rate = Undefined,
                                stream_channels = Undefined\<rparr>],
                     format = None\<rparr>)
          (\<lambda>c fs. (None, fs(cmd_output c \<mapsto> 750000)))
          ''/srv/output'' 1700000000001
          (Some \<lparr>originalname = ''talk.mp3'', path = ''/srv/uploads/1700000000000-42.mp3''\<rparr>)
          [''/srv/uploads/1700000000000-42.mp3'' \<mapsto> 1000000])) = 200
   \<and> selected (removeSilence ''/srv/uploads/1700000000000-42.mp3''
                 ''/srv/output/trimmed-1700000000001.mp3'' None)
     = (Some ''libmp3lame'', Some (Fin 128), [])"
proof -
  let ?probe = "\<lambda>p :: string. (Inr \<lparr>streams = [\<lparr>codec_type = Str ''video'', bit_rate = Num (Fin 900000),
                                codec_name = Str ''h264'', sample_rate = Undefined,
                                stream_channels = Undefined\<rparr>],
                     format = None\<rparr> :: error + ffprobe_data)"
  let ?tool = "\<lambda>(c :: command) (fs :: filesystem). (None :: error option, fs(cmd_output c \<mapsto> 750000))"
  let ?upload = "\<lparr>originalname = ''talk.mp3'', path = ''/srv/uploads/1700000000000-42.mp3''\<rparr>"
  have h: "getAudioMetadata (?probe (path ?upload)) = Inl (Error ''No audio stream found'')"
    by (simp add: getAudioMetadata_def)
  have t: "table_4_2_amended (extname ''/srv/output/trimmed-1700000000001.mp3'') None
           = (Some ''libmp3lame'', Some (Fin 128), [])"
    by (simp add: table_4_2_amended_def same_ignoring_case_def lower_char_def extname_def
        last_component_def or_default_def)
  show ?thesis
    using probe_failure_not_fatal [where ffprobe = ?probe and ffmpeg = ?tool
        and req_file = ?upload and err = "Error ''No audio stream found''"
        and outputDir = "''/srv/output''" and now = 1700000000001
        and ?files0.0 = "[''/srv/uploads/1700000000000-42.mp3'' \<mapsto> 1000000]", OF h] h t
    by (simp add: output_name_example path_join_def command_paths existsSync_def)
qed


subsection \<open>The size reduction\<close>

lemma decimal_lt10: "n < 10 \<Longrightarrow> decimal n = [digit_char n]"
  by (subst decimal.simps) simp

lemma decimal_ge10: "10 \<le> n \<Longrightarrow> decimal n = decimal (n div 10) @ [digit_char (n mod 10)]"
  by (subst decimal.simps) simp

lemma decimal_length: "0 < length (decimal n)"
  by (subst decimal.simps) simp

lemma div_10_10: "n div 10 div 10 = n div (100::nat)"
  using div_mult2_eq [of n 10 10] by simp

lemma tens_digit: "n div 10 mod 10 = n mod 100 div (10::nat)"
  using mod_mult2_eq [of n 10 10] by simp

lemma fixed2_digits:
  "(let m = decimal n;
        m' = (if length m \<le> 2 then replicate (2 + 1 - length m) CHR ''0'' @ m else m);
        k = length m'
    in take (k - 2) m' @ ''.'' @ drop (k - 2) m')
   = decimal (n div 100) @ ''.'' @ [digit_char (n mod 100 div 10), digit_char (n mod 10)]"
proof -
  have z: "digit_char 0 = CHR ''0''"
    by (simp add: digit_char_def)
  consider "n < 10" | "10 \<le> n" "n < 100" | "100 \<le> n" by linarith
  then show ?thesis
  proof cases
    case 1
    then have "decimal n = [digit_char n]" "decimal (n div 100) = [digit_char 0]"
      by (simp_all add: decimal_lt10)
    then show ?thesis using 1 z by (simp add: Let_def)
  next
    case 2
    have "n div 10 < 10" using 2 by simp
    then have a: "decimal n = [digit_char (n div 10), digit_char (n mod 10)]"
      using 2 decimal_ge10 [of n] decimal_lt10 [of "n div 10"] by simp
    have b: "decimal (n div 100) = [digit_char 0]"
      using 2 by (simp add: decimal_lt10)
    have c: "n mod 100 = n" using 2 by simp
    show ?thesis using a b c z by (simp add: Let_def)
  next
    case 3
    then have d: "10 \<le> n div 10" by simp
    have "decimal n = decimal (n div 10) @ [digit_char (n mod 10)]"
      using 3 decimal_ge10 [of n] by simp
    also have "decimal (n div 10) = decimal (n div 100) @ [digit_char (n mod 100 div 10)]"
      using d decimal_ge10 [of "n div 10"] by (simp only: div_10_10 tens_digit)
    finally have a: "decimal n
        = decimal (n div 100) @ [digit_char (n mod 100 div 10), digit_char (n mod 10)]"
      by simp
    have "2 < length (decimal n)"
      using decimal_length [of "n div 100"] by (simp add: a)
    then show ?thesis
      by (simp add: Let_def a)
  qed
qed

subsection \<open>The rounded percentage\<close>

lemma percentage_error:
  fixes originalSize newSize :: nat
  defines "p \<equiv> (of_nat originalSize - of_nat newSize) / of_nat originalSize * (100 :: rat)"
  assumes "0 < originalSize" and "originalSize < 2 ^ 53" and "newSize < 2 ^ 53"
  shows "\<exists>x. percentage originalSize newSize = Fin x \<and> \<bar>x - p\<bar> \<le> \<bar>p\<bar> / 2 ^ 51"
proof -
  define s :: rat where "s = of_nat originalSize"
  define d :: rat where "d = of_nat originalSize - of_nat newSize"
  define eps :: rat where "eps = 1 / 2 ^ 53"
  have s1: "1 \<le> s" using assms(2) by (simp add: s_def)
  have "originalSize \<le> 2 ^ 53" using assms(3) by simp
  then have "(of_nat originalSize :: rat) \<le> of_nat (2 ^ 53)" by (simp only: of_nat_le_iff)
  then have s2: "s \<le> 2 ^ 53" by (simp add: s_def)
  have di: "d = of_int (int originalSize - int newSize)" by (simp add: d_def)
  have d1: "d = 0 \<or> 1 \<le> \<bar>d\<bar>"
  proof (cases "int originalSize - int newSize = 0")
    case True
    then show ?thesis by (simp add: di)
  next
    case False
    then have "1 \<le> \<bar>int originalSize - int newSize\<bar>" by simp
    then have "(1::rat) \<le> of_int \<bar>int originalSize - int newSize\<bar>" by (simp only: of_int_1_le_iff)
    then show ?thesis by (simp add: di)
  qed
  have "\<bar>int originalSize - int newSize\<bar> \<le> 2 ^ 53" using assms(3,4) by simp
  then have "(of_int \<bar>int originalSize - int newSize\<bar> :: rat) \<le> of_int (2 ^ 53)"
    by (simp only: of_int_le_iff)
  then have d2: "\<bar>d\<bar> \<le> 2 ^ 53" by (simp add: di)
  have "d = 0 \<or> (1 / 2 ^ 200 \<le> \<bar>d\<bar> \<and> \<bar>d\<bar> \<le> 2 ^ 200)"
    using d1 d2 by auto
  from round_step [OF this] obtain x0
    where x0: "rounded (Fin d) = Fin x0" "\<bar>x0 - d\<bar> \<le> \<bar>d\<bar> / 2 ^ 53"
      "\<bar>d\<bar> / 2 \<le> \<bar>x0\<bar>" "\<bar>x0\<bar> \<le> 2 * \<bar>d\<bar>" by blast
  define q1 where "q1 = x0 / s"
  have q1a: "\<bar>q1\<bar> = \<bar>x0\<bar> / s" using s1 by (simp add: q1_def)
  have q10: "q1 = 0" if "d = 0" using that x0(4) by (simp add: q1_def)
  have q1r: "1 / 2 ^ 54 \<le> \<bar>q1\<bar> \<and> \<bar>q1\<bar> \<le> 2 ^ 54" if "d \<noteq> 0"
  proof -
    have a: "1 / 2 \<le> \<bar>x0\<bar>" "\<bar>x0\<bar> \<le> 2 ^ 54" using that d1 d2 x0(3,4) by simp_all
    have "1 / 2 ^ 54 = (1 / 2) / (2 ^ 53 :: rat)" by simp
    also have "\<dots> \<le> (1 / 2) / s" using s1 s2 by (intro divide_left_mono) simp_all
    also have "\<dots> \<le> \<bar>x0\<bar> / s" using a(1) s1 by (intro divide_right_mono) simp_all
    finally have lo: "1 / 2 ^ 54 \<le> \<bar>q1\<bar>" by (simp only: q1a)
    have "\<bar>x0\<bar> / s \<le> \<bar>x0\<bar> / 1" using s1 by (intro divide_left_mono) simp_all
    then have "\<bar>q1\<bar> \<le> 2 ^ 54" using a(2) by (simp add: q1a)
    with lo show ?thesis by simp
  qed
  have "q1 = 0 \<or> (1 / 2 ^ 200 \<le> \<bar>q1\<bar> \<and> \<bar>q1\<bar> \<le> 2 ^ 200)"
    using q10 q1r by (cases "d = 0") auto
  from round_step [OF this] obtain x1
    where x1: "rounded (Fin q1) = Fin x1" "\<bar>x1 - q1\<bar> \<le> \<bar>q1\<bar> / 2 ^ 53"
      "\<bar>q1\<bar> / 2 \<le> \<bar>x1\<bar>" "\<bar>x1\<bar> \<le> 2 * \<bar>q1\<bar>" by blast
  define q2 where "q2 = x1 * 100"
  have "q2 = 0 \<or> (1 / 2 ^ 200 \<le> \<bar>q2\<bar> \<and> \<bar>q2\<bar> \<le> 2 ^ 200)"
  proof (cases "d = 0")
    case True
    then show ?thesis using q10 x1(4) by (simp add: q2_def)
  next
    case False
    from q1r [OF this] x1(3,4) show ?thesis by (simp add: q2_def abs_mult)
  qed
  from round_step [OF this] obtain x
    where x: "rounded (Fin q2) = Fin x" "\<bar>x - q2\<bar> \<le> \<bar>q2\<bar> / 2 ^ 53" by blast
  have "s \<noteq> 0" using s1 by simp
  have "percentage originalSize newSize
        = rounded (js_times (rounded (js_divide (rounded (Fin d)) (Fin s))) (Fin 100))"
    by (simp add: percentage_def d_def s_def del: rounded.simps)
  also have "\<dots> = rounded (js_times (rounded (Fin q1)) (Fin 100))"
    using \<open>s \<noteq> 0\<close> by (simp add: x0(1) q1_def del: rounded.simps)
  also have "\<dots> = rounded (Fin q2)"
    by (simp add: x1(1) q2_def del: rounded.simps)
  finally have px: "percentage originalSize newSize = Fin x"
    by (simp only: x(1))
  have e0: "0 \<le> eps" by (simp add: eps_def)
  have a: "\<bar>x0 - d\<bar> \<le> \<bar>d\<bar> * eps" using x0(2) by (simp add: eps_def)
  have b: "\<bar>x1 - x0 * (1 / s)\<bar> \<le> \<bar>x0 * (1 / s)\<bar> * eps"
    using x1(2) by (simp add: eps_def q1_def)
  note c = rel_error_scale [OF a b e0]
  have "\<bar>x - x1 * 100\<bar> \<le> \<bar>x1 * 100\<bar> * eps"
    using x(2) by (simp add: eps_def q2_def)
  note f = rel_error_scale [OF c this e0]
  have pd: "d * (1 / s) * 100 = p" by (simp add: p_def d_def s_def)
  have "eps + eps + eps * eps + eps + (eps + eps + eps * eps) * eps \<le> 1 / 2 ^ 51"
    by (simp add: eps_def)
  then have "\<bar>p\<bar> * (eps + eps + eps * eps + eps + (eps + eps + eps * eps) * eps)
             \<le> \<bar>p\<bar> * (1 / 2 ^ 51)"
    by (intro mult_left_mono) simp_all
  with f have "\<bar>x - p\<bar> \<le> \<bar>p\<bar> / 2 ^ 51"
    by (simp only: pd) simp
  with px show ?thesis by blast
qed

lemma hundredths_of_percentage:
  fixes originalSize newSize :: nat
  defines "p \<equiv> (of_nat originalSize - of_nat newSize) / of_nat originalSize * (100 :: rat)"
  assumes "0 < originalSize" and "originalSize < 2 ^ 36" and "newSize < 2 ^ 36"
    and "\<bar>x - p\<bar> \<le> \<bar>p\<bar> / 2 ^ 51"
  shows "\<bar>of_nat (hundredths x) / 100 - \<bar>p\<bar>\<bar> \<le> 1 / 200"
proof -
  define M where "M = int originalSize"
  define D where "D = \<bar>int originalSize - int newSize\<bar>"
  define N where "N = 2 * D * 10000"
  define t :: rat where "t = \<bar>p\<bar> * 100"
  define v :: rat where "v = \<bar>x\<bar> * 100"
  define k where "k = \<lfloor>v + 1 / 2\<rfloor>"
  have M0: "0 < M" using assms(2) by (simp add: M_def)
  then have M0': "(0::rat) < of_int M" by simp
  have "D < 2 ^ 36" using assms(3,4) by (simp add: D_def)
  then have N1: "N < 2 ^ 51" by (simp add: N_def)
  have N0: "0 \<le> N" by (simp add: N_def D_def)
  have "p = of_int (int originalSize - int newSize) / of_int M * 100"
    by (simp add: p_def M_def)
  then have "\<bar>p\<bar> = \<bar>of_int (int originalSize - int newSize)\<bar> / \<bar>of_int M\<bar> * \<bar>100\<bar>"
    by (simp only: abs_mult abs_divide)
  then have "\<bar>p\<bar> = of_int D * 100 / of_int M"
    using M0 by (simp add: D_def)
  then have tN: "t = of_int N / (2 * of_int M)"
    by (simp add: t_def N_def)
  have "(of_int N :: rat) < of_int (2 ^ 51)" using N1 by (simp only: of_int_less_iff)
  then have "(of_int N :: rat) / 2 ^ 51 < 1" by simp
  then have "of_int N / 2 ^ 51 / (2 * of_int M) < 1 / (2 * of_int M :: rat)"
    using M0' by (intro divide_strict_right_mono) simp_all
  then have small: "t / 2 ^ 51 < 1 / (2 * of_int M)" by (simp add: tN)
  have "\<bar>\<bar>x\<bar> - \<bar>p\<bar>\<bar> \<le> \<bar>p\<bar> / 2 ^ 51" using assms(5) by linarith
  then have "\<bar>\<bar>x\<bar> - \<bar>p\<bar>\<bar> * 100 \<le> \<bar>p\<bar> / 2 ^ 51 * 100" by (intro mult_right_mono) simp_all
  then have "\<bar>v - t\<bar> \<le> t / 2 ^ 51" by (simp add: v_def t_def abs_if split: if_splits)
  with small have close: "\<bar>v - t\<bar> < 1 / (2 * of_int M)" by linarith
  have fl: "of_int k - 1 / 2 \<le> v" "v < of_int k + 1 / 2"
    unfolding k_def by linarith+
  have up: "N \<le> (2 * k + 1) * M"
  proof (rule ccontr)
    assume "\<not> N \<le> (2 * k + 1) * M"
    then have "(2 * k + 1) * M + 1 \<le> N" by simp
    then have "(of_int ((2 * k + 1) * M + 1) :: rat) \<le> of_int N" by (simp only: of_int_le_iff)
    then have "(2 * of_int k + 1) * of_int M + 1 \<le> (of_int N :: rat)" by simp
    then have "((2 * of_int k + 1) * of_int M + 1) / (2 * of_int M) \<le> t"
      using M0' by (simp add: tN divide_right_mono)
    moreover have "((2 * of_int k + 1) * of_int M + 1) / (2 * of_int M)
                   = of_int k + 1 / 2 + 1 / (2 * of_int M :: rat)"
      using M0' by (simp add: field_simps)
    ultimately have "of_int k + 1 / 2 + 1 / (2 * of_int M) \<le> t" by simp
    with close fl show False by linarith
  qed
  have lo: "(2 * k - 1) * M \<le> N"
  proof (rule ccontr)
    assume "\<not> (2 * k - 1) * M \<le> N"
    then have "N \<le> (2 * k - 1) * M - 1" by simp
    then have "(of_int N :: rat) \<le> of_int ((2 * k - 1) * M - 1)" by (simp only: of_int_le_iff)
    then have "(of_int N :: rat) \<le> (2 * of_int k - 1) * of_int M - 1" by simp
    then have "t \<le> ((2 * of_int k - 1) * of_int M - 1) / (2 * of_int M)"
      using M0' by (simp add: tN divide_right_mono)
    moreover have "((2 * of_int k - 1) * of_int M - 1) / (2 * of_int M)
                   = of_int k - 1 / 2 - 1 / (2 * of_int M :: rat)"
      using M0' by (simp add: field_simps)
    ultimately have "t \<le> of_int k - 1 / 2 - 1 / (2 * of_int M)" by simp
    with close fl show False by linarith
  qed
  have "(of_int N :: rat) \<le> of_int ((2 * k + 1) * M)" using up by (simp only: of_int_le_iff)
  then have "(of_int N :: rat) \<le> (2 * of_int k + 1) * of_int M" by simp
  then have "(of_int N :: rat) / (2 * of_int M) \<le> (2 * of_int k + 1) * of_int M / (2 * of_int M)"
    using M0' by (intro divide_right_mono) simp_all
  moreover have "(2 * of_int k + 1) * of_int M / (2 * of_int M) = of_int k + 1 / (2::rat)"
    using M0' by (simp add: field_simps)
  ultimately have a: "t \<le> of_int k + 1 / 2" by (simp add: tN)
  have "(of_int ((2 * k - 1) * M) :: rat) \<le> of_int N" using lo by (simp only: of_int_le_iff)
  then have "(2 * of_int k - 1) * of_int M \<le> (of_int N :: rat)" by simp
  then have "(2 * of_int k - 1) * of_int M / (2 * of_int M) \<le> (of_int N :: rat) / (2 * of_int M)"
    using M0' by (intro divide_right_mono) simp_all
  moreover have "(2 * of_int k - 1) * of_int M / (2 * of_int M) = of_int k - 1 / (2::rat)"
    using M0' by (simp add: field_simps)
  ultimately have b: "of_int k - 1 / 2 \<le> t" by (simp add: tN)
  have "0 \<le> v" by (simp add: v_def)
  then have "0 \<le> k" by (simp add: k_def)
  then have h: "(of_nat (hundredths x) :: rat) = of_int k"
    by (simp add: hundredths_def k_def v_def)
  have "\<bar>of_int k / 100 - t / 100\<bar> \<le> 1 / 200"
    using a b by linarith
  moreover have "t / 100 = \<bar>p\<bar>" by (simp add: t_def)
  ultimately show ?thesis
    by (simp only: h)
qed

lemma toFixed_2:
  "toFixed (Fin q) 2
   = (if q < 0 then ''-'' else [])
     @ decimal (hundredths q div 100) @ ''.''
     @ [digit_char (hundredths q mod 100 div 10), digit_char (hundredths q mod 10)]"
  using fixed2_digits [of "nat \<lfloor>\<bar>q\<bar> * 100 + 1 / 2\<rfloor>"]
  by (simp add: toFixed_def hundredths_def Let_def)

lemma nearest_hundredth: "\<bar>of_nat (hundredths x) / 100 - \<bar>x\<bar>\<bar> \<le> 1 / 200"
proof -
  let ?x = "\<bar>x\<bar> * 100 + 1 / 2"
  have "0 \<le> \<lfloor>?x\<rfloor>" by simp
  then have n: "(of_nat (hundredths x) :: rat) = of_int \<lfloor>?x\<rfloor>"
    by (simp add: hundredths_def)
  have "of_int \<lfloor>?x\<rfloor> \<le> ?x" "?x < of_int \<lfloor>?x\<rfloor> + 1"
    by linarith+
  then show ?thesis unfolding n by linarith
qed

lemma rel_error_sign:
  fixes x p :: rat
  assumes "\<bar>x - p\<bar> \<le> \<bar>p\<bar> / 2 ^ 51"
  shows "(x < 0) = (p < 0)"
proof -
  have "\<bar>p\<bar> / 2 ^ 51 \<le> \<bar>p\<bar> / 2" by (simp add: field_simps)
  with assms have "\<bar>x - p\<bar> \<le> \<bar>p\<bar> / 2" by (rule order_trans)
  then show ?thesis by linarith
qed

lemma percentage_example_1: "percentage 1000000 750000 = Fin 25"
  by (simp add: percentage_def double_eval)

lemma percentage_example_2:
  "percentage 160 63 = Fin (8532210231541759 / 140737488355328)"
  by (simp add: percentage_def double_eval)

lemma reduction_example: "reduction 1000000 750000 = ''25.00''"
proof -
  have "hundredths 25 = 2500"
    by (simp add: hundredths_def floor_numeral_quotient)
  moreover have "decimal 25 = ''25''"
    by (simp add: digit_char_def decimal.simps)
  ultimately show ?thesis
    by (simp add: reduction_def percentage_example_1 toFixed_2 digit_char_def)
qed

lemma reduction_example_2: "reduction 160 63 = ''60.62''"
proof -
  have "hundredths (8532210231541759 / 140737488355328) = 6062"
    by (simp add: hundredths_def floor_numeral_quotient)
  moreover have "decimal 60 = ''60''"
    by (simp add: digit_char_def decimal.simps)
  ultimately show ?thesis
    by (simp add: reduction_def percentage_example_2 toFixed_2 digit_char_def)
qed

lemma percentage_nothing: "percentage 0 0 = NaN"
  by (simp add: percentage_def to_double_def)

lemma percentage_no_input:
  fixes n :: nat
  assumes n: "0 < n" "n < 2 ^ 53"
  shows "percentage 0 n = NegInfinity"
proof -
  define d :: rat where "d = - of_nat n"
  have "1 \<le> n" "n \<le> 2 ^ 53" using n by simp_all
  then have "(of_nat 1 :: rat) \<le> of_nat n" "(of_nat n :: rat) \<le> of_nat (2 ^ 53)"
    by (simp_all only: of_nat_le_iff)
  then have r: "1 \<le> \<bar>d\<bar>" "\<bar>d\<bar> \<le> 2 ^ 53" by (simp_all add: d_def)
  then have "d = 0 \<or> (1 / 2 ^ 200 \<le> \<bar>d\<bar> \<and> \<bar>d\<bar> \<le> 2 ^ 200)" by simp
  from round_step [OF this] obtain x
    where x: "rounded (Fin d) = Fin x" "\<bar>x - d\<bar> \<le> \<bar>d\<bar> / 2 ^ 53" "\<bar>d\<bar> / 2 \<le> \<bar>x\<bar>" by blast
  have "\<bar>d\<bar> / 2 ^ 53 \<le> \<bar>d\<bar> / 2" by (simp add: field_simps)
  with x(2) have "\<bar>x - d\<bar> \<le> \<bar>d\<bar> / 2" by (rule order_trans)
  moreover have "d < 0" using n(1) by (simp add: d_def)
  ultimately have "x < 0" by linarith
  moreover have "percentage 0 n
                 = rounded (js_times (rounded (js_divide (rounded (Fin d)) (Fin 0))) (Fin 100))"
    by (simp add: percentage_def d_def del: rounded.simps)
  moreover have "to_double d = Fin x" using x(1) by simp
  ultimately show ?thesis
    by simp
qed

text \<open>
  Claim C7. A successful response reports \<^verbatim>\<open>reduction\<close> followed by a percent sign. Let
  \<open>p = (originalSize - newSize) / originalSize * 100\<close>. For an input file that is not
  empty and sizes below \<open>2^53\<close>, the program's double \<open>x\<close> for \<open>p\<close> has the sign of \<open>p\<close> and
  lies within \<open>\<bar>p\<bar> / 2^51\<close> of it, and the string is \<open>x\<close> rounded to two decimals: the sign,
  the digits of \<open>h div 100\<close>, a point and the two digits of \<open>h mod 100\<close>, where \<open>h\<close> is the
  number of hundredths nearest to \<open>\<bar>x\<bar>\<close>. For sizes below \<open>2^36\<close> this \<open>h / 100\<close> is within
  half a hundredth of \<open>\<bar>p\<bar>\<close> itself, so that the string is \<open>p\<close> rounded to two decimals
  (where \<open>p\<close> lies halfway between two hundredths, either one). For an empty input file the
  quotient is not a percentage and the string is \<^verbatim>\<open>NaN%\<close> or \<^verbatim>\<open>-Infinity%\<close>. For 1000000 and
  750000 bytes the string is \<^verbatim>\<open>25.00%\<close>.
\<close>

theorem reduction_percent:
  fixes ffprobe :: ffprobe_tool and ffmpeg :: ffmpeg_tool and req_file :: upload
    and outputDir :: string and now :: nat and files0 :: filesystem and r :: processing_result
  defines "p \<equiv> (of_nat (originalSize r) - of_nat (newSize r)) / of_nat (originalSize r) * (100 :: rat)"
  assumes "response (trim_silence ffprobe ffmpeg outputDir now (Some req_file) files0) = Success r"
  shows "sizeReduction r = reduction (originalSize r) (newSize r) @ ''%''
       \<and> (0 < originalSize r \<and> originalSize r < 2 ^ 53 \<and> newSize r < 2 ^ 53 \<longrightarrow>
            (\<exists>x. percentage (originalSize r) (newSize r) = Fin x
               \<and> \<bar>x - p\<bar> \<le> \<bar>p\<bar> / 2 ^ 51
               \<and> sizeReduction r
                   = (if p < 0 then ''-'' else []) @ decimal (hundredths x div 100) @ ''.''
                     @ [digit_char (hundredths x mod 100 div 10), digit_char (hundredths x mod 10)]
                     @ ''%''
               \<and> \<bar>of_nat (hundredths x) / 100 - \<bar>x\<bar>\<bar> \<le> 1 / 200
               \<and> (originalSize r < 2 ^ 36 \<and> newSize r < 2 ^ 36
                    \<longrightarrow> \<bar>of_nat (hundredths x) / 100 - \<bar>p\<bar>\<bar> \<le> 1 / 200)))
       \<and> (originalSize r = 0 \<and> newSize r = 0 \<longrightarrow> sizeReduction r = ''NaN%'')
       \<and> (originalSize r = 0 \<and> 0 < newSize r \<and> newSize r < 2 ^ 53
            \<longrightarrow> sizeReduction r = ''-Infinity%'')
       \<and> reduction 1000000 750000 @ ''%'' = ''25.00%''"
proof -
  have s: "sizeReduction r = reduction (originalSize r) (newSize r) @ ''%''"
    using success_result [OF assms(2)] by blast
  have a: "\<exists>x. percentage (originalSize r) (newSize r) = Fin x
               \<and> \<bar>x - p\<bar> \<le> \<bar>p\<bar> / 2 ^ 51
               \<and> sizeReduction r
                   = (if p < 0 then ''-'' else []) @ decimal (hundredths x div 100) @ ''.''
                     @ [digit_char (hundredths x mod 100 div 10), digit_char (hundredths x mod 10)]
                     @ ''%''
               \<and> \<bar>of_nat (hundredths x) / 100 - \<bar>x\<bar>\<bar> \<le> 1 / 200
               \<and> (originalSize r < 2 ^ 36 \<and> newSize r < 2 ^ 36
                    \<longrightarrow> \<bar>of_nat (hundredths x) / 100 - \<bar>p\<bar>\<bar> \<le> 1 / 200)"
    if h: "0 < originalSize r" "originalSize r < 2 ^ 53" "newSize r < 2 ^ 53"
  proof -
    from percentage_error [OF h] obtain x
      where x: "percentage (originalSize r) (newSize r) = Fin x" "\<bar>x - p\<bar> \<le> \<bar>p\<bar> / 2 ^ 51"
      unfolding p_def by blast
    have "sizeReduction r
          = (if p < 0 then ''-'' else []) @ decimal (hundredths x div 100) @ ''.''
            @ [digit_char (hundredths x mod 100 div 10), digit_char (hundredths x mod 10)]
            @ ''%''"
      using rel_error_sign [OF x(2)] by (simp add: s reduction_def x(1) toFixed_2)
    moreover have "\<bar>of_nat (hundredths x) / 100 - \<bar>p\<bar>\<bar> \<le> 1 / 200"
      if "originalSize r < 2 ^ 36" and "newSize r < 2 ^ 36"
      using x(2) unfolding p_def
      by (rule hundredths_of_percentage [OF h(1) that])
    ultimately show ?thesis
      using x nearest_hundredth [of x] by blast
  qed
  have b: "sizeReduction r = ''NaN%''" if "originalSize r = 0" and "newSize r = 0"
    using that by (simp add: s reduction_def percentage_nothing toFixed_def)
  have c: "sizeReduction r = ''-Infinity%''"
    if "originalSize r = 0" and "0 < newSize r" and "newSize r < 2 ^ 53"
    using that percentage_no_input [of "newSize r"]
    by (simp add: s reduction_def toFixed_def)
  have d: "reduction 1000000 750000 @ ''%'' = ''25.00%''"
    by (simp add: reduction_example)
  from s a b c d show ?thesis by blast
qed

text \<open>
  The theorem at a request that turns 1000000 bytes into 750000 bytes, and at one that
  turns 160 bytes into 63: the exact percentage 60.625 lies halfway between two
  hundredths, the double lies below it, and the response says \<^verbatim>\<open>60.62%\<close>.
\<close>

theorem reduction_percent_witness:
  "response
     (trim_silence
        (\<lambda>p. Inr \<lparr>streams = [\<lparr>codec_type = Str ''audio'', bit_rate = Num (Fin 256000),
                              codec_name = Str ''mp3'', sample_rate = Num (Fin 44100),
                              stream_channels = Num (Fin 2)\<rparr>],
                   format = None\<rparr>)
        (\<lambda>c fs. (None, fs(cmd_output c \<mapsto> 750000)))
        ''/srv/output'' 1700000000001
        (Some \<lparr>originalname = ''talk.mp3'', path = ''/srv/uploads/1700000000000-42.mp3''\<rparr>)
        [''/srv/uploads/1700000000000-42.mp3'' \<mapsto> 1000000])
   = Success \<lparr>filename = ''trimmed-1700000000001.mp3'',
              downloadUrl = ''/api/download/trimmed-1700000000001.mp3'',
              originalSize = 1000000, newSize = 750000, sizeReduction = ''25.00%''\<rparr>
   \<and> (\<exists>x. percentage 1000000 750000 = Fin x
          \<and> \<bar>x - 25\<bar> \<le> 25 / 2 ^ 51
          \<and> ''25.00%'' = decimal (hundredths x div 100) @ ''.''
                @ [digit_char (hundredths x mod 100 div 10), digit_char (hundredths x mod 10)]
                @ ''%''
          \<and> \<bar>of_nat (hundredths x) / 100 - (25 :: rat)\<bar> \<le> 1 / 200)
   \<and> response
       (trim_silence
          (\<lambda>p. Inl (Error ''ffprobe exited with code 1''))
          (\<lambda>c fs. (None, fs(cmd_output c \<mapsto> 63)))
          ''/srv/output'' 1700000000001
          (Some \<lparr>originalname = ''talk.mp3'', path = ''/srv/uploads/1700000000000-42.mp3''\<rparr>)
          [''/srv/uploads/1700000000000-42.mp3'' \<mapsto> 160])
     = Success \<lparr>filename = ''trimmed-1700000000001.mp3'',
                downloadUrl = ''/api/download/trimmed-1700000000001.mp3'',
                originalSize = 160, newSize = 63, sizeReduction = ''60.62%''\<rparr>
   \<and> (\<exists>x. percentage 160 63 = Fin x
          \<and> \<bar>x - 485 / 8\<bar> \<le> 485 / 8 / 2 ^ 51
          \<and> ''60.62%'' = decimal (hundredths x div 100) @ ''.''
                @ [digit_char (hundredths x mod 100 div 10), digit_char (hundredths x mod 10)]
                @ ''%''
          \<and> \<bar>of_nat (hundredths x) / 100 - (485 / 8 :: rat)\<bar> \<le> 1 / 200)
   \<and> percentage 160 63 = Fin (8532210231541759 / 140737488355328)"
proof -
  let ?r1 = "\<lparr>filename = ''trimmed-1700000000001.mp3'',
               downloadUrl = ''/api/download/trimmed-1700000000001.mp3'',
               originalSize = 1000000, newSize = 750000, sizeReduction = ''25.00%''\<rparr>"
  let ?r2 = "\<lparr>filename = ''trimmed-1700000000001.mp3'',
               downloadUrl = ''/api/download/trimmed-1700000000001.mp3'',
               originalSize = 160, newSize = 63, sizeReduction = ''60.62%''\<rparr>"
  have a1: "response
     (trim_silence
        (\<lambda>p. Inr \<lparr>streams = [\<lparr>codec_type = Str ''audio'', bit_rate = Num (Fin 256000),
                              codec_name = Str ''mp3'', sample_rate = Num (Fin 44100),
                              stream_channels = Num (Fin 2)\<rparr>],
                   format = None\<rparr>)
        (\<lambda>c fs. (None, fs(cmd_output c \<mapsto> 750000)))
        ''/srv/output'' 1700000000001
        (Some \<lparr>originalname = ''talk.mp3'', path = ''/srv/uploads/1700000000000-42.mp3''\<rparr>)
        [''/srv/uploads/1700000000000-42.mp3'' \<mapsto> 1000000])
   = Success ?r1"
    by (simp add: trim_silence_def output_name_example path_join_def try_block_def
        probe_metadata_def getAudioMetadata_def command_paths existsSync_def statSync_def
        reduction_example Let_def)
  have a2: "response
       (trim_silence
          (\<lambda>p. Inl (Error ''ffprobe exited with code 1''))
          (\<lambda>c fs. (None, fs(cmd_output c \<mapsto> 63)))
          ''/srv/output'' 1700000000001
          (Some \<lparr>originalname = ''talk.mp3'', path = ''/srv/uploads/1700000000000-42.mp3''\<rparr>)
          [''/srv/uploads/1700000000000-42.mp3'' \<mapsto> 160])
     = Success ?r2"
    by (simp add: trim_silence_def output_name_example path_join_def try_block_def
        probe_metadata_def getAudioMetadata_def command_paths existsSync_def statSync_def
        reduction_example_2 Let_def)
  have h1: "0 < originalSize ?r1 \<and> originalSize ?r1 < 2 ^ 53 \<and> newSize ?r1 < 2 ^ 53"
    and k1: "originalSize ?r1 < 2 ^ 36 \<and> newSize ?r1 < 2 ^ 36"
    and h2: "0 < originalSize ?r2 \<and> originalSize ?r2 < 2 ^ 53 \<and> newSize ?r2 < 2 ^ 53"
    and k2: "originalSize ?r2 < 2 ^ 36 \<and> newSize ?r2 < 2 ^ 36"
    by simp_all
  have p1: "(of_nat (originalSize ?r1) - of_nat (newSize ?r1)) / of_nat (originalSize ?r1)
            * (100 :: rat) = 25"
    and p2: "(of_nat (originalSize ?r2) - of_nat (newSize ?r2)) / of_nat (originalSize ?r2)
            * (100 :: rat) = 485 / 8"
    by simp_all
  note t1 = mp [OF conjunct1 [OF conjunct2 [OF reduction_percent [OF a1]]] h1]
  note t2 = mp [OF conjunct1 [OF conjunct2 [OF reduction_percent [OF a2]]] h2]
  have b1: "\<exists>x. percentage 1000000 750000 = Fin x
          \<and> \<bar>x - 25\<bar> \<le> 25 / 2 ^ 51
          \<and> ''25.00%'' = decimal (hundredths x div 100) @ ''.''
                @ [digit_char (hundredths x mod 100 div 10), digit_char (hundredths x mod 10)]
                @ ''%''
          \<and> \<bar>of_nat (hundredths x) / 100 - (25 :: rat)\<bar> \<le> 1 / 200"
    using t1 k1 unfolding p1 by simp blast
  have b2: "\<exists>x. percentage 160 63 = Fin x
          \<and> \<bar>x - 485 / 8\<bar> \<le> 485 / 8 / 2 ^ 51
          \<and> ''60.62%'' = decimal (hundredths x div 100) @ ''.''
                @ [digit_char (hundredths x mod 100 div 10), digit_char (hundredths x mod 10)]
                @ ''%''
          \<and> \<bar>of_nat (hundredths x) / 100 - (485 / 8 :: rat)\<bar> \<le> 1 / 200"
    using t2 k2 unfolding p2 by simp blast
  from a1 b1 a2 b2 percentage_example_2 show ?thesis by (intro conjI)
qed


subsection \<open>File names\<close>

lemma digit_char_digit: "is_digit 10 (digit_char d)"
  by (simp add: digit_char_def is_digit_def digit_value_def)

lemma digit_char_inj: "a < 10 \<Longrightarrow> b < 10 \<Longrightarrow> digit_char a = digit_char b \<Longrightarrow> a = b"
  by (simp add: digit_char_def split: if_splits) arith

lemma decimal_digits: "c \<in> set (decimal n) \<Longrightarrow> is_digit 10 c"
proof (induction n arbitrary: c rule: decimal.induct)
  case (1 n)
  show ?case
  proof (cases "n < 10")
    case True
    with "1.prems" show ?thesis
      by (simp add: decimal_lt10 digit_char_digit)
  next
    case False
    with "1.prems" "1.IH" show ?thesis
      by (auto simp: decimal_ge10 digit_char_digit)
  qed
qed

lemma decimal_inj: "decimal m = decimal n \<Longrightarrow> m = n"
proof (induction m arbitrary: n rule: decimal.induct)
  case (1 m)
  show ?case
  proof (cases "m < 10")
    case True
    show ?thesis
    proof (cases "n < 10")
      case n: True
      with True "1.prems" show ?thesis
        by (simp add: decimal_lt10 digit_char_inj)
    next
      case False
      then have "1 < length (decimal n)"
        using decimal_length [of "n div 10"] by (simp add: decimal_ge10)
      moreover have "length (decimal m) = 1"
        using True by (simp add: decimal_lt10)
      moreover have "length (decimal m) = length (decimal n)"
        using "1.prems" by simp
      ultimately show ?thesis by simp
    qed
  next
    case False
    show ?thesis
    proof (cases "n < 10")
      case True
      from False have "1 < length (decimal m)"
        using decimal_length [of "m div 10"] by (simp add: decimal_ge10)
      moreover have "length (decimal n) = 1"
        using True by (simp add: decimal_lt10)
      moreover have "length (decimal m) = length (decimal n)"
        using "1.prems" by simp
      ultimately show ?thesis by simp
    next
      case n: False
      from False n "1.prems"
      have e: "decimal (m div 10) = decimal (n div 10)"
        "digit_char (m mod 10) = digit_char (n mod 10)"
        by (simp_all add: decimal_ge10)
      have "m div 10 = n div 10"
        using "1.IH" [OF False e(1)] .
      moreover have "m mod 10 = n mod 10"
        using e(2) by (intro digit_char_inj) simp_all
      ultimately show ?thesis
        by (metis div_mult_mod_eq)
    qed
  qed
qed

lemma digits_then_other:
  assumes "\<forall>c \<in> set a. is_digit 10 c" and "\<forall>c \<in> set a'. is_digit 10 c"
    and "x = [] \<or> \<not> is_digit 10 (hd x)" and "x' = [] \<or> \<not> is_digit 10 (hd x')"
    and "a @ x = a' @ x'"
  shows "a = a' \<and> x = x'"
proof -
  have t: "takeWhile (is_digit 10) (b @ y) = b"
    if "\<forall>c \<in> set b. is_digit 10 c" and "y = [] \<or> \<not> is_digit 10 (hd y)" for b y
    using that by (cases y) (simp_all add: takeWhile_append2)
  have "a = takeWhile (is_digit 10) (a @ x)" using t [OF assms(1,3)] by simp
  also have "\<dots> = takeWhile (is_digit 10) (a' @ x')" using assms(5) by simp
  also have "\<dots> = a'" using t [OF assms(2,4)] by simp
  finally have "a = a'" .
  with assms(5) show ?thesis by simp
qed

lemma extname_shape: "extname p = [] \<or> hd (extname p) = CHR ''.''"
  by (simp add: extname_def Let_def)

text \<open>
  The names of uploads: two uploads with the same stored name have the same time stamp,
  the same random number and the same extension, so the time stamp and the random suffix
  keep the uploads of concurrent requests apart.
\<close>

lemma upload_names_distinct:
  assumes "storage_filename now rnd name = storage_filename now' rnd' name'"
  shows "now = now'
       \<and> nat \<lfloor>rnd * 1000000000 + 1 / 2\<rfloor> = nat \<lfloor>rnd' * 1000000000 + 1 / 2\<rfloor>
       \<and> extname name = extname name'"
proof -
  let ?r = "nat \<lfloor>rnd * 1000000000 + 1 / 2\<rfloor>" and ?r' = "nat \<lfloor>rnd' * 1000000000 + 1 / 2\<rfloor>"
  have dash: "\<not> is_digit 10 CHR ''-''" and dot: "\<not> is_digit 10 CHR ''.''"
    by (simp_all add: is_digit_def digit_value_def)
  have e: "decimal now @ (''-'' @ decimal ?r @ extname name)
           = decimal now' @ (''-'' @ decimal ?r' @ extname name')"
    using assms by (simp add: storage_filename_def)
  have 1: "decimal now = decimal now'
           \<and> ''-'' @ decimal ?r @ extname name = ''-'' @ decimal ?r' @ extname name'"
    using e dash by (intro digits_then_other) (auto dest: decimal_digits)
  have x: "extname q = [] \<or> \<not> is_digit 10 (hd (extname q))" for q
    using extname_shape [of q] dot by auto
  have 2: "decimal ?r = decimal ?r' \<and> extname name = extname name'"
    using 1 x by (intro digits_then_other) (auto dest: decimal_digits)
  from 1 2 show ?thesis by (auto dest: decimal_inj)
qed

text \<open>
  Claim C8. The name of an upload is the time stamp, a dash, the random number and the
  extension of the original name. The name of an output file has no random part: it is
  \<^verbatim>\<open>trimmed-\<close>, the time stamp and the extension. Two requests that reach line 226 in
  the same millisecond with the same extension get the same output name, although their
  uploads have different names: the source does not name the output file the way the claim
  says.
\<close>

theorem output_name_collision:
  "storage_filename 1700000000000 (1 / 4) ''alice.mp3'' = ''1700000000000-250000000.mp3''
   \<and> storage_filename 1700000000000 (3 / 4) ''bob.mp3'' = ''1700000000000-750000000.mp3''
   \<and> outputFilename 1700000000001 ''alice.mp3'' = ''trimmed-1700000000001.mp3''
   \<and> outputFilename 1700000000001 ''bob.mp3'' = ''trimmed-1700000000001.mp3''"
proof -
  have e: "extname ''alice.mp3'' = ''.mp3''" "extname ''bob.mp3'' = ''.mp3''"
    by (simp_all add: extname_def last_component_def)
  have d: "decimal 1700000000000 = ''1700000000000''" "decimal 1700000000001 = ''1700000000001''"
    "decimal 250000000 = ''250000000''" "decimal 750000000 = ''750000000''"
    by (simp_all add: decimal.simps digit_char_def)
  have r: "nat \<lfloor>(500000001 :: rat) / 2\<rfloor> = 250000000"
    "nat \<lfloor>(1500000001 :: rat) / 2\<rfloor> = 750000000"
    by (simp_all add: floor_numeral_quotient)
  show ?thesis
    by (simp add: storage_filename_def outputFilename_def e d r)
qed

end
